theory Spec2Isabelle
  imports Complex_Main "HOL-Library.Sublist"
begin

unbundle bit_operations_syntax

section \<open>Fragment annotation pipeline (DB\_fill/main.py)\<close>

text \<open>
  The functions of \<^verbatim>\<open>main.py\<close> as HOL functions. A Python exception is a value
  \<open>Inl e\<close> of a sum type; a function that touches the database or the console takes
  the world and returns it, also when it raises (the connection runs with autocommit on,
  so what was written before an exception stays written).
\<close>

datatype py_error =
  ValueError | KeyError | IndexError | AttributeError | IntegrityError | ProgrammingError
  | ServiceError

subsection \<open>Title parsing\<close>

text \<open>
  \<^verbatim>\<open>title.split('[', 1)\<close>: a list of one element when the separator does not occur,
  otherwise the text before the first separator and the text after it.
\<close>

definition split1 :: "char \<Rightarrow> string \<Rightarrow> string list" where
  "split1 sep s =
     (case dropWhile (\<lambda>c. c \<noteq> sep) s of
        [] \<Rightarrow> [s]
      | _ # rest \<Rightarrow> [takeWhile (\<lambda>c. c \<noteq> sep) s, rest])"

text \<open>
  \<^verbatim>\<open>str.strip()\<close>: the characters Python counts as whitespace among the code points
  below 256, which is what a \<^typ>\<open>char\<close> holds.
\<close>

definition isspace :: "char \<Rightarrow> bool" where
  "isspace c =
     ((of_char c :: nat) \<in> {9, 10, 11, 12, 13, 28, 29, 30, 31, 32, 133, 160})"

definition strip :: "string \<Rightarrow> string" where
  "strip s = rev (dropWhile isspace (rev (dropWhile isspace s)))"

text \<open>
  The loop of \<^verbatim>\<open>title_parse\<close> over \<^verbatim>\<open>enumerate(start_organism_name)\<close>: the rest of
  the characters, the position of the next one and the running count.
\<close>

fun scan_organism :: "string \<Rightarrow> string \<Rightarrow> nat \<Rightarrow> int \<Rightarrow> string option" where
  "scan_organism start_organism_name [] pos nested_count = None"
| "scan_organism start_organism_name (char # rest) pos nested_count =
     (let nested_count' =
            (if char = CHR ''['' then nested_count + 1
             else if char = CHR '']'' then nested_count - 1
             else nested_count)
      in if nested_count' = - 1 then Some (take pos start_organism_name)
         else scan_organism start_organism_name rest (Suc pos) nested_count')"

text \<open>
  Unpacking the result of the split into two names raises \<^verbatim>\<open>ValueError\<close> unless the
  list has exactly two elements.
\<close>

definition title_parse :: "string \<Rightarrow> py_error + (string \<times> string option)" where
  "title_parse title =
     (case split1 CHR ''['' title of
        [protein_name, start_organism_name] \<Rightarrow>
          Inr (strip protein_name,
               scan_organism start_organism_name start_organism_name 0 0)
      | _ \<Rightarrow> Inl ValueError)"

subsection \<open>The remote search request\<close>

text \<open>
  The keyword arguments of the call of \<^verbatim>\<open>NCBIWWW.qblast\<close> in \<^verbatim>\<open>processing\<close>.
  The source writes the last one as \<^verbatim>\<open>10 ^ -5\<close>, and \<^verbatim>\<open>^\<close> is Python's bitwise
  exclusive or on integers.
\<close>

record qblast_request =
  program :: string
  database :: string
  sequence :: string
  ncbi_gi :: bool
  hitlist_size :: int
  format_type :: string
  matrix_name :: string
  gapcosts :: string
  word_size :: int
  entrez_query :: string
  expect :: int

text \<open>
  \<^verbatim>\<open>processing\<close> reads \<^verbatim>\<open>fragment_data[0]\<close> for its first message and
  \<^verbatim>\<open>fragment_data[1]\<close> for the request; either raises \<^verbatim>\<open>IndexError\<close> on a shorter
  list.
\<close>

definition qblast_request_of :: "string list \<Rightarrow> py_error + qblast_request" where
  "qblast_request_of fragment_data =
     (case fragment_data of
        header # seq # _ \<Rightarrow>
          Inr \<lparr>program = ''blastx'', database = ''nr'', sequence = seq, ncbi_gi = True,
               hitlist_size = 5, format_type = ''XML'', matrix_name = ''BLOSUM62'',
               gapcosts = ''11 1'', word_size = 6,
               entrez_query = ''Procaryotae[Organism] OR Fungi[Organism]'',
               expect = 10 XOR (- 5)\<rparr>
      | _ \<Rightarrow> Inl IndexError)"

subsection \<open>External collaborators\<close>

text \<open>
  The taxonomy source is the library class \<^verbatim>\<open>NCBITaxa\<close>, which is not part of the
  repository: its three methods are parameters, and each call may raise. The two
  translators return dictionaries.
\<close>

record ncbi =
  get_name_translator :: "string option list \<Rightarrow> py_error + (string option \<rightharpoonup> int list)"
  ncbi_get_lineage :: "int \<Rightarrow> py_error + int list"
  get_taxid_translator :: "int list \<Rightarrow> py_error + (int \<rightharpoonup> string)"

text \<open>
  One alignment of a parsed search result, with the fields the code reads. The numbers
  of a high-scoring pair are only carried to the store, so their type is left open.
\<close>

record 'v hsp =
  hsp_score :: 'v
  hsp_expect :: 'v
  hsp_identities :: 'v
  hsp_gaps :: 'v
  hsp_positives :: 'v

record 'v alignment =
  hit_def :: string
  accession :: string
  hsps :: "'v hsp list"

subsection \<open>The store and the console\<close>

text \<open>
  The statements \<^verbatim>\<open>main.py\<close> sends through \<^verbatim>\<open>SQLConnection.query\<close>, with their
  arguments.
\<close>

datatype 'v stmt =
    Select_tax_id
  | Select_header
  | Insert_taxonomy int string "int option"
  | Insert_ignore_fragment "string list"
  | Insert_ignore_protein string "int option" string
  | Insert_blast_result string string 'v 'v 'v 'v 'v

text \<open>
  The four tables in insertion order, the statements executed so far and the lines
  printed so far.
\<close>

record 'v world =
  fragment :: "(string \<times> string \<times> string) list"
  taxonomy :: "(int \<times> string \<times> int option) list"
  protein :: "(string \<times> int option \<times> string option \<times> string) list"
  blast_result :: "(nat option \<times> string \<times> 'v \<times> 'v \<times> 'v \<times> 'v \<times> 'v) list"
  executed :: "'v stmt list"
  console :: "string list"

text \<open>\<^verbatim>\<open>select tax_id from taxonomy\<close>, then \<^verbatim>\<open>row[0]\<close> of every row.\<close>

definition select_tax_id :: "'v world \<Rightarrow> int list \<times> 'v world" where
  "select_tax_id w =
     (map fst (taxonomy w), w\<lparr>executed := executed w @ [Select_tax_id]\<rparr>)"

text \<open>\<^verbatim>\<open>select header from fragment\<close>, then \<^verbatim>\<open>row[0]\<close> of every row.\<close>

definition select_header :: "'v world \<Rightarrow> string list \<times> 'v world" where
  "select_header w =
     (map fst (fragment w), w\<lparr>executed := executed w @ [Select_header]\<rparr>)"

text \<open>
  Modelled from the spec: the schema of the store is not in the repository; section 6
  of the specification gives \<^verbatim>\<open>taxonomy(tax_id unique, name, parent_tax_id)\<close>.
  \<^verbatim>\<open>insert into taxonomy values(%s, %s, %s)\<close> has no \<^verbatim>\<open>ignore\<close>: on a key that is
  present the store raises and the table is unchanged.
\<close>

definition insert_taxonomy ::
  "int \<Rightarrow> string \<Rightarrow> int option \<Rightarrow> 'v world \<Rightarrow> (py_error + unit) \<times> 'v world" where
  "insert_taxonomy tax_id name parent w =
     (let w' = w\<lparr>executed := executed w @ [Insert_taxonomy tax_id name parent]\<rparr>
      in if tax_id \<in> set (map fst (taxonomy w)) then (Inl IntegrityError, w')
         else (Inr (), w'\<lparr>taxonomy := taxonomy w @ [(tax_id, name, parent)]\<rparr>))"

text \<open>
  Modelled from the spec: \<^verbatim>\<open>fragment(header unique, seq, quality)\<close>.
  \<^verbatim>\<open>insert ignore into fragment(header, seq, quality) values(%s, %s, %s)\<close> takes
  the whole of \<^verbatim>\<open>fragment_data\<close> as its arguments: three are needed. A header that is
  present makes the statement a no-op.
\<close>

definition insert_ignore_fragment ::
  "string list \<Rightarrow> 'v world \<Rightarrow> (py_error + unit) \<times> 'v world" where
  "insert_ignore_fragment fragment_data w =
     (let w' = w\<lparr>executed := executed w @ [Insert_ignore_fragment fragment_data]\<rparr>
      in case fragment_data of
           [header, seq, quality] \<Rightarrow>
             if header \<in> set (map fst (fragment w)) then (Inr (), w')
             else (Inr (), w'\<lparr>fragment := fragment w @ [(header, seq, quality)]\<rparr>)
         | _ \<Rightarrow> (Inl ProgrammingError, w'))"

text \<open>
  Modelled from the spec: \<^verbatim>\<open>protein(accession unique, tax_id, sequence, name)\<close>.
  \<^verbatim>\<open>insert ignore into protein values(%s, %s, %s, %s)\<close> with a null sequence.
\<close>

definition insert_ignore_protein ::
  "string \<Rightarrow> int option \<Rightarrow> string \<Rightarrow> 'v world \<Rightarrow> (py_error + unit) \<times> 'v world" where
  "insert_ignore_protein acc tax_id protein_name w =
     (let w' = w\<lparr>executed := executed w @ [Insert_ignore_protein acc tax_id protein_name]\<rparr>
      in if acc \<in> set (map fst (protein w)) then (Inr (), w')
         else (Inr (), w'\<lparr>protein := protein w @ [(acc, tax_id, None, protein_name)]\<rparr>))"

text \<open>
  \<^verbatim>\<open>(select fragment_id as id from fragment where header = %s)\<close>: the identifier of a
  fragment row is modelled as its position in the table, counted from one; no row gives
  a null.
\<close>

fun fragment_id_of :: "string \<Rightarrow> (string \<times> string \<times> string) list \<Rightarrow> nat option" where
  "fragment_id_of header [] = None"
| "fragment_id_of header (row # rows) =
     (if fst row = header then Some 1 else map_option Suc (fragment_id_of header rows))"

definition insert_blast_result ::
  "string \<Rightarrow> string \<Rightarrow> 'v \<Rightarrow> 'v \<Rightarrow> 'v \<Rightarrow> 'v \<Rightarrow> 'v \<Rightarrow> 'v world
     \<Rightarrow> (py_error + unit) \<times> 'v world" where
  "insert_blast_result header acc sc ex ids pos gps w =
     (Inr (),
      w\<lparr>executed := executed w @ [Insert_blast_result header acc sc ex ids pos gps],
        blast_result := blast_result w
          @ [(fragment_id_of header (fragment w), acc, sc, ex, ids, pos, gps)]\<rparr>)"

subsection \<open>Lineage resolution\<close>

text \<open>
  \<^verbatim>\<open>get_lineage\<close>: the dictionary lookup raises \<^verbatim>\<open>KeyError\<close> on an unknown name,
  \<^verbatim>\<open>[0]\<close> raises \<^verbatim>\<open>IndexError\<close> on an empty list, and \<^verbatim>\<open>lineage[1:]\<close> drops the root.
\<close>

definition get_lineage :: "ncbi \<Rightarrow> string option \<Rightarrow> py_error + int list" where
  "get_lineage ncbi organism_name =
     (case get_name_translator ncbi [organism_name] of
        Inl e \<Rightarrow> Inl e
      | Inr translator \<Rightarrow>
          (case translator organism_name of
             None \<Rightarrow> Inl KeyError
           | Some [] \<Rightarrow> Inl IndexError
           | Some (tax_id # _) \<Rightarrow>
               (case ncbi_get_lineage ncbi tax_id of
                  Inl e \<Rightarrow> Inl e
                | Inr lineage \<Rightarrow> Inr (drop 1 lineage))))"

text \<open>The parent of the element at \<open>pos\<close>, as \<^verbatim>\<open>update_taxonomy\<close> computes it.\<close>

definition parent_of :: "int list \<Rightarrow> nat \<Rightarrow> int option" where
  "parent_of lineage pos =
     (let parent_pos = int pos - 1
      in if parent_pos \<ge> 0 then Some (lineage ! (pos - 1)) else None)"

text \<open>
  The loop of \<^verbatim>\<open>update_taxonomy\<close> over \<^verbatim>\<open>enumerate(lineage)\<close>. The snapshot
  \<open>current_tax\<close> is not updated by the loop.
\<close>

fun update_taxonomy_loop ::
  "ncbi \<Rightarrow> int set \<Rightarrow> int list \<Rightarrow> (nat \<times> int) list \<Rightarrow> 'v world
     \<Rightarrow> (py_error + unit) \<times> 'v world" where
  "update_taxonomy_loop ncbi current_tax lineage [] w = (Inr (), w)"
| "update_taxonomy_loop ncbi current_tax lineage ((pos, tax_id) # rest) w =
     (if tax_id \<notin> current_tax then
        (case get_taxid_translator ncbi [tax_id] of
           Inl e \<Rightarrow> (Inl e, w)
         | Inr translator \<Rightarrow>
             (case translator tax_id of
                None \<Rightarrow> (Inl KeyError, w)
              | Some name \<Rightarrow>
                  (case insert_taxonomy tax_id name (parent_of lineage pos) w of
                     (Inl e, w') \<Rightarrow> (Inl e, w')
                   | (Inr _, w') \<Rightarrow>
                       update_taxonomy_loop ncbi current_tax lineage rest w')))
      else update_taxonomy_loop ncbi current_tax lineage rest w)"

definition update_taxonomy ::
  "ncbi \<Rightarrow> int set \<Rightarrow> int list \<Rightarrow> 'v world \<Rightarrow> (py_error + unit) \<times> 'v world" where
  "update_taxonomy ncbi current_tax lineage w =
     update_taxonomy_loop ncbi current_tax lineage (enumerate 0 lineage) w"

text \<open>
  The loop of \<^verbatim>\<open>check_lineage\<close> over \<^verbatim>\<open>reversed(lineage)\<close>: the first identifier
  missing from the snapshot starts one update and ends the loop.
\<close>

fun check_lineage_loop ::
  "ncbi \<Rightarrow> int set \<Rightarrow> int list \<Rightarrow> int list \<Rightarrow> 'v world \<Rightarrow> (py_error + unit) \<times> 'v world" where
  "check_lineage_loop ncbi tax_set lineage [] w = (Inr (), w)"
| "check_lineage_loop ncbi tax_set lineage (tax_id # rest) w =
     (if tax_id \<notin> tax_set then update_taxonomy ncbi tax_set lineage w
      else check_lineage_loop ncbi tax_set lineage rest w)"

text \<open>\<^verbatim>\<open>lineage[-1]\<close> raises \<^verbatim>\<open>IndexError\<close> on the empty list.\<close>

definition check_lineage ::
  "ncbi \<Rightarrow> string option \<Rightarrow> 'v world \<Rightarrow> (py_error + int) \<times> 'v world" where
  "check_lineage ncbi organism_name w =
     (case select_tax_id w of
        (present_taxa, w1) \<Rightarrow>
          (let tax_set = set present_taxa
           in case get_lineage ncbi organism_name of
                Inl e \<Rightarrow> (Inl e, w1)
              | Inr lineage \<Rightarrow>
                  (case check_lineage_loop ncbi tax_set lineage (rev lineage) w1 of
                     (Inl e, w2) \<Rightarrow> (Inl e, w2)
                   | (Inr _, w2) \<Rightarrow>
                       (case lineage of
                          [] \<Rightarrow> (Inl IndexError, w2)
                        | _ # _ \<Rightarrow> (Inr (last lineage), w2)))))"

subsection \<open>The annotation worker\<close>

text \<open>The dictionary built by \<^verbatim>\<open>extract_results\<close>, one field for each key.\<close>

record 'v results =
  res_score :: 'v
  res_expect :: 'v
  res_identities :: 'v
  res_gaps :: 'v
  res_positives :: 'v
  res_accession :: string
  res_protein_name :: string
  res_organism_name :: "string option"
  res_title :: string

text \<open>
  \<^verbatim>\<open>extract_results\<close>: the title is parsed first, then \<^verbatim>\<open>alignment.hsps[0]\<close> is read,
  which raises \<^verbatim>\<open>IndexError\<close> on an alignment with no high-scoring pair.
\<close>

definition extract_results :: "'v alignment \<Rightarrow> py_error + 'v results" where
  "extract_results alignment =
     (case title_parse (hit_def alignment) of
        Inl e \<Rightarrow> Inl e
      | Inr (protein_name, organism_name) \<Rightarrow>
          (case hsps alignment of
             [] \<Rightarrow> Inl IndexError
           | h # _ \<Rightarrow>
               Inr \<lparr>res_score = hsp_score h, res_expect = hsp_expect h,
                    res_identities = hsp_identities h, res_gaps = hsp_gaps h,
                    res_positives = hsp_positives h, res_accession = accession alignment,
                    res_protein_name = protein_name, res_organism_name = organism_name,
                    res_title = hit_def alignment\<rparr>))"

text \<open>
  The body of the \<^verbatim>\<open>try\<close> in \<^verbatim>\<open>blast_results_save\<close>: \<^verbatim>\<open>check_lineage\<close>, whose
  result is dropped, then \<^verbatim>\<open>get_lineage(...)[-1]\<close>.
\<close>

definition resolve_tax_id ::
  "ncbi \<Rightarrow> string option \<Rightarrow> 'v world \<Rightarrow> (py_error + int) \<times> 'v world" where
  "resolve_tax_id ncbi organism_name w =
     (case check_lineage ncbi organism_name w of
        (Inl e, w1) \<Rightarrow> (Inl e, w1)
      | (Inr _, w1) \<Rightarrow>
          (case get_lineage ncbi organism_name of
             Inl e \<Rightarrow> (Inl e, w1)
           | Inr lineage \<Rightarrow>
               (case lineage of
                  [] \<Rightarrow> (Inl IndexError, w1)
                | _ # _ \<Rightarrow> (Inr (last lineage), w1))))"

text \<open>
  The line printed by the handler. An organism name that is \<^verbatim>\<open>None\<close> is formatted as
  the text \<^verbatim>\<open>None\<close>; \<^verbatim>\<open>fragment_data[0]\<close> raises on the empty list.
\<close>

definition lookup_message :: "string list \<Rightarrow> 'v results \<Rightarrow> py_error + string" where
  "lookup_message fragment_data blast_results =
     (case fragment_data of
        [] \<Rightarrow> Inl IndexError
      | header # _ \<Rightarrow>
          Inr (''An error occurred while looking up the data of '' @ header @ '' as ''
               @ (case res_organism_name blast_results of None \<Rightarrow> ''None'' | Some n \<Rightarrow> n)
               @ '',with title '' @ res_title blast_results))"

text \<open>
  The \<^verbatim>\<open>try\<close> with its handler: \<^verbatim>\<open>except KeyError\<close> catches that exception only,
  prints and leaves \<^verbatim>\<open>tax_id\<close> at \<^verbatim>\<open>None\<close>; any other exception leaves the function.
\<close>

definition try_resolve ::
  "ncbi \<Rightarrow> string list \<Rightarrow> 'v results \<Rightarrow> 'v world \<Rightarrow> (py_error + int option) \<times> 'v world" where
  "try_resolve ncbi fragment_data blast_results w =
     (case resolve_tax_id ncbi (res_organism_name blast_results) w of
        (Inr tax_id, w1) \<Rightarrow> (Inr (Some tax_id), w1)
      | (Inl e, w1) \<Rightarrow>
          if e = KeyError then
            (case lookup_message fragment_data blast_results of
               Inl e' \<Rightarrow> (Inl e', w1)
             | Inr line \<Rightarrow> (Inr None, w1\<lparr>console := console w1 @ [line]\<rparr>))
          else (Inl e, w1))"

text \<open>One pass of the loop over the alignments in \<^verbatim>\<open>blast_results_save\<close>.\<close>

definition save_alignment ::
  "ncbi \<Rightarrow> string list \<Rightarrow> 'v alignment \<Rightarrow> 'v world \<Rightarrow> (py_error + unit) \<times> 'v world" where
  "save_alignment ncbi fragment_data alignment w =
     (case extract_results alignment of
        Inl e \<Rightarrow> (Inl e, w)
      | Inr blast_results \<Rightarrow>
          (case try_resolve ncbi fragment_data blast_results w of
             (Inl e, w1) \<Rightarrow> (Inl e, w1)
           | (Inr tax_id, w1) \<Rightarrow>
               (case insert_ignore_protein (res_accession blast_results) tax_id
                       (res_protein_name blast_results) w1 of
                  (Inl e, w2) \<Rightarrow> (Inl e, w2)
                | (Inr _, w2) \<Rightarrow>
                    (case fragment_data of
                       [] \<Rightarrow> (Inl IndexError, w2)
                     | header # _ \<Rightarrow>
                         insert_blast_result header (res_accession blast_results)
                           (res_score blast_results) (res_expect blast_results)
                           (res_identities blast_results) (res_positives blast_results)
                           (res_gaps blast_results) w2))))"

fun save_alignments ::
  "ncbi \<Rightarrow> string list \<Rightarrow> 'v alignment list \<Rightarrow> 'v world \<Rightarrow> (py_error + unit) \<times> 'v world" where
  "save_alignments ncbi fragment_data [] w = (Inr (), w)"
| "save_alignments ncbi fragment_data (alignment # rest) w =
     (case save_alignment ncbi fragment_data alignment w of
        (Inl e, w') \<Rightarrow> (Inl e, w')
      | (Inr _, w') \<Rightarrow> save_alignments ncbi fragment_data rest w')"

text \<open>
  \<^verbatim>\<open>blast_results_save\<close>. The parser \<^verbatim>\<open>NCBIXML.read\<close> is a library function and a
  parameter here; it comes first, then the fragment row, then the alignments.
\<close>

definition blast_results_save ::
  "('d \<Rightarrow> py_error + 'v alignment list) \<Rightarrow> ncbi \<Rightarrow> string list \<Rightarrow> 'd \<Rightarrow> 'v world
     \<Rightarrow> (py_error + unit) \<times> 'v world" where
  "blast_results_save NCBIXML_read ncbi fragment_data blast_results w =
     (case NCBIXML_read blast_results of
        Inl e \<Rightarrow> (Inl e, w)
      | Inr alignments \<Rightarrow>
          (case insert_ignore_fragment fragment_data w of
             (Inl e, w1) \<Rightarrow> (Inl e, w1)
           | (Inr _, w1) \<Rightarrow> save_alignments ncbi fragment_data alignments w1))"

text \<open>
  \<^verbatim>\<open>processing\<close>: the request is built and sent (the search service is a parameter),
  and its result is saved. The two progress lines carry the time of day and are left
  out, as are the credentials file and the opening of the connection.
\<close>

definition processing ::
  "(qblast_request \<Rightarrow> py_error + 'd) \<Rightarrow> ('d \<Rightarrow> py_error + 'v alignment list) \<Rightarrow> ncbi
     \<Rightarrow> string list \<Rightarrow> 'v world \<Rightarrow> (py_error + unit) \<times> 'v world" where
  "processing qblast NCBIXML_read ncbi fragment_data w =
     (case qblast_request_of fragment_data of
        Inl e \<Rightarrow> (Inl e, w)
      | Inr request \<Rightarrow>
          (case qblast request of
             Inl e \<Rightarrow> (Inl e, w)
           | Inr result \<Rightarrow> blast_results_save NCBIXML_read ncbi fragment_data result w))"

subsection \<open>The dispatcher\<close>

text \<open>
  \<^verbatim>\<open>fragment_reader\<close>: the input is the list of rows the csv reader yields, each a list
  of fields; a row gives the pair \<^verbatim>\<open>(line[0:3], line[3:])\<close>.
\<close>

definition fragment_reader :: "string list list \<Rightarrow> (string list \<times> string list) list" where
  "fragment_reader csv_file = map (\<lambda>line. (take 3 line, drop 3 line)) csv_file"

text \<open>The reads in the order the two nested loops of \<^verbatim>\<open>create_threads\<close> visit them.\<close>

definition reads_of :: "string list list \<Rightarrow> string list list" where
  "reads_of csv_file =
     concat (map (\<lambda>(read1, read2). [read1, read2]) (fragment_reader csv_file))"

text \<open>
  The loop body with \<^verbatim>\<open>allow_duplicates\<close> false. A started thread is recorded by the
  read it was given; \<^verbatim>\<open>read[0]\<close> raises \<^verbatim>\<open>IndexError\<close> on an empty read, and the
  threads started before that stay started.
\<close>

fun launch_absent ::
  "string set \<Rightarrow> string list list \<Rightarrow> string list list
     \<Rightarrow> (py_error + unit) \<times> string list list" where
  "launch_absent fragment_set [] started = (Inr (), started)"
| "launch_absent fragment_set (read # rest) started =
     (case read of
        [] \<Rightarrow> (Inl IndexError, started)
      | header # _ \<Rightarrow>
          if header \<in> fragment_set then launch_absent fragment_set rest started
          else launch_absent fragment_set rest (started @ [read]))"

text \<open>The loop body with \<^verbatim>\<open>allow_duplicates\<close> true: a thread for every read.\<close>

fun launch_all :: "string list list \<Rightarrow> string list list \<Rightarrow> (py_error + unit) \<times> string list list" where
  "launch_all [] started = (Inr (), started)"
| "launch_all (read # rest) started = launch_all rest (started @ [read])"

text \<open>
  \<^verbatim>\<open>create_threads\<close> returns the threads it started, in order, and the world after
  its own query. The pause between two starts is not modelled.
\<close>

definition create_threads ::
  "bool \<Rightarrow> string list list \<Rightarrow> 'v world
     \<Rightarrow> ((py_error + unit) \<times> string list list) \<times> 'v world" where
  "create_threads allow_duplicates csv_file w =
     (if allow_duplicates then (launch_all (reads_of csv_file) [], w)
      else
        (case select_header w of
           (present_taxa, w') \<Rightarrow>
             (let fragment_set = set present_taxa
              in (launch_absent fragment_set (reads_of csv_file) [], w'))))"

subsection \<open>Reading a trace and a table\<close>

text \<open>The statement that inserts a given taxonomy row.\<close>

definition insert_stmt :: "int \<times> string \<times> int option \<Rightarrow> 'v stmt" where
  "insert_stmt row = (case row of (tax_id, name, parent) \<Rightarrow> Insert_taxonomy tax_id name parent)"

text \<open>
  Rows appended one after the other to a table whose identifiers are \<open>present\<close>: every
  parent that is not null is an identifier of the table or of a row appended before.
\<close>

fun parents_present :: "int set \<Rightarrow> (int \<times> string \<times> int option) list \<Rightarrow> bool" where
  "parents_present present [] = True"
| "parents_present present ((tax_id, name, parent) # rows) =
     ((case parent of None \<Rightarrow> True | Some p \<Rightarrow> p \<in> present)
      \<and> parents_present (insert tax_id present) rows)"

text \<open>
  The specification's chain, in its words: every element of the lineage from root to
  leaf with the previous element as its parent, and null for the first.
\<close>

definition spec_chain :: "int list \<Rightarrow> (int \<times> int option) list" where
  "spec_chain lineage = zip lineage (None # map Some lineage)"

subsection \<open>Example data\<close>

text \<open>
  A small taxonomy source: two names, their lineages from the root, and the names of the
  identifiers. An unknown identifier makes the lineage call raise.
\<close>

definition example_ncbi :: ncbi where
  "example_ncbi =
     \<lparr>get_name_translator = (\<lambda>names. Inr (\<lambda>name.
          if name \<in> set names then
            (if name = Some ''Escherichia coli'' then Some [562]
             else if name = Some ''root'' then Some [1]
             else None)
          else None)),
      ncbi_get_lineage = (\<lambda>tax_id.
          if tax_id = 562 then Inr [1, 131567, 2, 562]
          else if tax_id = 1 then Inr [1]
          else Inl ValueError),
      get_taxid_translator = (\<lambda>tax_ids. Inr (\<lambda>tax_id.
          if tax_id \<in> set tax_ids then
            (if tax_id = 1 then Some ''root''
             else if tax_id = 131567 then Some ''cellular organisms''
             else if tax_id = 2 then Some ''Bacteria''
             else if tax_id = 562 then Some ''Escherichia coli''
             else None)
          else None))\<rparr>"

definition example_world :: "int world" where
  "example_world =
     \<lparr>fragment = [(''read1'', ''ACGT'', ''IIII'')],
      taxonomy = [(131567, ''cellular organisms'', None)],
      protein = [], blast_result = [], executed = [], console = []\<rparr>"

text \<open>The example world after the lineage of \<^verbatim>\<open>Escherichia coli\<close> has been resolved.\<close>

definition example_world_resolved :: "int world" where
  "example_world_resolved =
     example_world
       \<lparr>executed := [Select_tax_id, Insert_taxonomy 2 ''Bacteria'' (Some 131567),
                     Insert_taxonomy 562 ''Escherichia coli'' (Some 2)],
        taxonomy := [(131567, ''cellular organisms'', None), (2, ''Bacteria'', Some 131567),
                     (562, ''Escherichia coli'', Some 2)]\<rparr>"

definition example_fragment :: "string list" where
  "example_fragment = [''read1'', ''ACGT'', ''IIII'']"

definition example_csv :: "string list list" where
  "example_csv =
     [[''read1'', ''ACGT'', ''IIII'', ''read2'', ''TTGA'', ''HHHH''],
      [''read3'', ''GGCA'', ''FFFF'', ''read1'', ''ACGT'', ''IIII'']]"

definition example_hit :: "string \<Rightarrow> string \<Rightarrow> int alignment" where
  "example_hit title acc =
     \<lparr>hit_def = title, accession = acc,
      hsps = [\<lparr>hsp_score = 250, hsp_expect = 0, hsp_identities = 48, hsp_gaps = 0,
               hsp_positives = 50\<rparr>]\<rparr>"

section \<open>Properties\<close>

subsection \<open>Title parsing\<close>

lemma split1_absent: "sep \<notin> set s \<Longrightarrow> split1 sep s = [s]"
proof -
  assume "sep \<notin> set s"
  then have none: "dropWhile (\<lambda>c. c \<noteq> sep) s = []"
    by (induction s) auto
  show ?thesis
    unfolding split1_def none by simp
qed

text \<open>
  C2. The claim: a title with no \<^verbatim>\<open>[\<close> parses to the trimmed title and a null
  organism name. The code: the split yields one element, the unpacking into two names
  raises \<^verbatim>\<open>ValueError\<close>, for every such title.
\<close>

theorem title_parse_no_bracket_raises:
  "CHR ''['' \<notin> set title \<Longrightarrow> title_parse title = Inl ValueError"
  by (simp add: title_parse_def split1_absent)

theorem title_parse_no_bracket_raises_witness:
  "CHR ''['' \<notin> set ''hypothetical protein''
   \<and> title_parse ''hypothetical protein'' = Inl ValueError"
  using title_parse_no_bracket_raises [of "''hypothetical protein''"] by simp

text \<open>
  C3. The claim: the title with a nested bracket in its first group parses to the
  organism name of the last group. The code ends the organism name at the first closing
  bracket that has no opening one after the first \<^verbatim>\<open>[\<close> of the title, so the name is
  the whole first group.
\<close>

theorem title_parse_nested_not_last_group:
  "snd (projr (title_parse ''Protein [with [nested] note] [Genus species]''))
     \<noteq> Some ''Genus species''"
  by (simp add: title_parse_def split1_def strip_def isspace_def)

text \<open>
  C3, as the code has it: the same title parses to the protein name before the first
  \<^verbatim>\<open>[\<close> and to the whole first bracket group as the organism name; the scan goes
  past the first \<^verbatim>\<open>]\<close>, which closes the nested bracket, and stops at the second.
\<close>

theorem title_parse_nested_first_group:
  "title_parse ''Protein [with [nested] note] [Genus species]''
     = Inr (''Protein'', Some ''with [nested] note'')"
  by (simp add: title_parse_def split1_def strip_def isspace_def)

subsection \<open>The remote search request\<close>

text \<open>
  C1. The claim: every request carries hit list size 5, matrix BLOSUM62, gap costs 11/1,
  word size 6 and the expect threshold 1e-5. The code: the first four are as claimed; the
  expect argument is the integer \<open>10 XOR (- 5) = - 15\<close>, not \<open>1 / 10 ^ 5\<close>, and this is
  the request \<^verbatim>\<open>processing\<close> hands to the search service.
\<close>

theorem qblast_request_expect_is_xor:
  "qblast_request_of (header # seq # rest) =
     Inr \<lparr>program = ''blastx'', database = ''nr'', sequence = seq, ncbi_gi = True,
          hitlist_size = 5, format_type = ''XML'', matrix_name = ''BLOSUM62'',
          gapcosts = ''11 1'', word_size = 6,
          entrez_query = ''Procaryotae[Organism] OR Fungi[Organism]'',
          expect = - 15\<rparr>
   \<and> real_of_int (expect (projr (qblast_request_of (header # seq # rest)))) \<noteq> 1 / 10 ^ 5
   \<and> processing qblast NCBIXML_read ncbi (header # seq # rest) w =
       (case qblast
               \<lparr>program = ''blastx'', database = ''nr'', sequence = seq, ncbi_gi = True,
                hitlist_size = 5, format_type = ''XML'', matrix_name = ''BLOSUM62'',
                gapcosts = ''11 1'', word_size = 6,
                entrez_query = ''Procaryotae[Organism] OR Fungi[Organism]'',
                expect = - 15\<rparr> of
          Inl e \<Rightarrow> (Inl e, w)
        | Inr result \<Rightarrow>
            blast_results_save NCBIXML_read ncbi (header # seq # rest) result w)"
  by (simp add: qblast_request_of_def processing_def)

subsection \<open>The dispatcher\<close>

lemma launch_absent_filter:
  "[] \<notin> set reads \<Longrightarrow>
   launch_absent S reads started = (Inr (), started @ filter (\<lambda>read. read ! 0 \<notin> S) reads)"
proof (induction reads arbitrary: started)
  case Nil
  then show ?case by simp
next
  case (Cons read rest)
  then obtain header fields where "read = header # fields"
    by (cases read) auto
  with Cons show ?case by simp
qed

lemma reads_of_nonempty:
  "\<forall>line \<in> set csv_file. 3 < length line \<Longrightarrow> [] \<notin> set (reads_of csv_file)"
  by (auto simp add: reads_of_def fragment_reader_def)

text \<open>
  C9. With \<^verbatim>\<open>allow_duplicates\<close> false and every input line holding two fragments,
  the threads started are the input fragments whose header is not among the headers the
  store held when the dispatcher read them, each once and in input order; no thread is
  started for a fragment whose header is among them.
\<close>

theorem create_threads_skips_present:
  assumes "\<forall>line \<in> set csv_file. 3 < length line"
  shows "create_threads False csv_file w =
     ((Inr (), filter (\<lambda>read. read ! 0 \<notin> set (map fst (fragment w))) (reads_of csv_file)),
      w\<lparr>executed := executed w @ [Select_header]\<rparr>)"
  using reads_of_nonempty [OF assms]
  by (simp add: create_threads_def select_header_def launch_absent_filter)

theorem create_threads_skips_present_witness:
  "list_all (\<lambda>line. 3 < length line) example_csv
   \<and> create_threads False example_csv example_world =
       ((Inr (), [[''read2'', ''TTGA'', ''HHHH''], [''read3'', ''GGCA'', ''FFFF'']]),
        example_world\<lparr>executed := [Select_header]\<rparr>)"
proof -
  have lines: "\<forall>line \<in> set example_csv. 3 < length line"
    by (simp add: example_csv_def)
  show ?thesis
    using create_threads_skips_present [OF lines, of example_world]
    by (simp add: example_csv_def example_world_def reads_of_def fragment_reader_def)
qed

subsection \<open>The update loop\<close>

lemma insert_taxonomy_present:
  "t \<in> fst ` set (taxonomy w) \<Longrightarrow>
   insert_taxonomy t n p w =
     (Inl IntegrityError, w\<lparr>executed := executed w @ [Insert_taxonomy t n p]\<rparr>)"
  by (simp add: insert_taxonomy_def)

lemma insert_taxonomy_absent:
  "t \<notin> fst ` set (taxonomy w) \<Longrightarrow>
   insert_taxonomy t n p w =
     (Inr (), w\<lparr>executed := executed w @ [Insert_taxonomy t n p],
                taxonomy := taxonomy w @ [(t, n, p)]\<rparr>)"
  by (simp add: insert_taxonomy_def)

lemma update_taxonomy_loop_Cons_cases:
  assumes "update_taxonomy_loop ncbi cur lin ((pos, t) # rest) w = (r, w')"
  obtains
    (skip) "t \<in> cur" "update_taxonomy_loop ncbi cur lin rest w = (r, w')"
  | (no_name) e where "t \<notin> cur" "w' = w" "r = Inl e"
  | (dup) n where "t \<notin> cur" "t \<in> fst ` set (taxonomy w)" "r = Inl IntegrityError"
      "w' = w\<lparr>executed := executed w @ [Insert_taxonomy t n (parent_of lin pos)]\<rparr>"
  | (ins) n where "t \<notin> cur" "t \<notin> fst ` set (taxonomy w)"
      "update_taxonomy_loop ncbi cur lin rest
         (w\<lparr>executed := executed w @ [Insert_taxonomy t n (parent_of lin pos)],
            taxonomy := taxonomy w @ [(t, n, parent_of lin pos)]\<rparr>) = (r, w')"
proof (cases "t \<in> cur")
  case True
  with assms skip show ?thesis by simp
next
  case notin: False
  show ?thesis
  proof (cases "get_taxid_translator ncbi [t]")
    case (Inl e)
    with assms notin no_name show ?thesis by auto
  next
    case (Inr tr)
    show ?thesis
    proof (cases "tr t")
      case None
      with assms notin Inr no_name show ?thesis by auto
    next
      case (Some n)
      show ?thesis
      proof (cases "t \<in> fst ` set (taxonomy w)")
        case True
        with assms notin Inr Some dup [of n] show ?thesis
          by (auto simp add: insert_taxonomy_present)
      next
        case False
        with assms notin Inr Some ins [of n] show ?thesis
          by (auto simp add: insert_taxonomy_absent)
      qed
    qed
  qed
qed

lemma update_taxonomy_loop_frame:
  "update_taxonomy_loop ncbi cur lin ps w = (r, w') \<Longrightarrow>
   fragment w' = fragment w \<and> protein w' = protein w
   \<and> blast_result w' = blast_result w \<and> console w' = console w"
proof (induction ps arbitrary: w)
  case Nil
  then show ?case by simp
next
  case (Cons a ps)
  obtain pos t where a: "a = (pos, t)" by (cases a)
  from Cons.prems [unfolded a] show ?case
  proof (cases rule: update_taxonomy_loop_Cons_cases)
    case skip
    then show ?thesis using Cons.IH by simp
  next
    case (no_name e)
    then show ?thesis by simp
  next
    case (dup n)
    then show ?thesis by simp
  next
    case (ins n)
    then show ?thesis using Cons.IH [OF ins(3)] by simp
  qed
qed

lemma update_taxonomy_loop_skip:
  "snd ` set ps \<subseteq> cur \<Longrightarrow> update_taxonomy_loop ncbi cur lin ps w = (Inr (), w)"
  by (induction ps) auto

lemma update_taxonomy_loop_trace:
  "update_taxonomy_loop ncbi cur lin ps w = (r, w') \<Longrightarrow>
   \<exists>att. executed w' = executed w @ map insert_stmt att
     \<and> subseq (map fst att) (filter (\<lambda>t. t \<notin> cur) (map snd ps))
     \<and> ((\<forall>t \<in> snd ` set ps. t \<notin> cur \<longrightarrow> t \<notin> fst ` set (taxonomy w))
          \<longrightarrow> distinct (map snd ps) \<longrightarrow> taxonomy w' = taxonomy w @ att)"
proof (induction ps arbitrary: w)
  case Nil
  then show ?case by (auto intro: exI [of _ "[]"])
next
  case (Cons a ps)
  obtain pos t where a: "a = (pos, t)" by (cases a)
  from Cons.prems [unfolded a] show ?case
  proof (cases rule: update_taxonomy_loop_Cons_cases)
    case skip
    from Cons.IH [OF skip(2)] obtain att where
      "executed w' = executed w @ map insert_stmt att"
      "subseq (map fst att) (filter (\<lambda>t. t \<notin> cur) (map snd ps))"
      "(\<forall>t \<in> snd ` set ps. t \<notin> cur \<longrightarrow> t \<notin> fst ` set (taxonomy w))
          \<longrightarrow> distinct (map snd ps) \<longrightarrow> taxonomy w' = taxonomy w @ att"
      by blast
    with skip(1) show ?thesis
      unfolding a by (intro exI [of _ att]) auto
  next
    case (no_name e)
    then show ?thesis by (intro exI [of _ "[]"]) simp
  next
    case (dup n)
    then show ?thesis
      unfolding a
      by (intro exI [of _ "[(t, n, parent_of lin pos)]"]) (auto simp add: insert_stmt_def)
  next
    case (ins n)
    let ?w1 = "w\<lparr>executed := executed w @ [Insert_taxonomy t n (parent_of lin pos)],
                  taxonomy := taxonomy w @ [(t, n, parent_of lin pos)]\<rparr>"
    from Cons.IH [OF ins(3)] obtain att where
      ex: "executed w' = executed ?w1 @ map insert_stmt att" and
      sub: "subseq (map fst att) (filter (\<lambda>t. t \<notin> cur) (map snd ps))" and
      tab: "(\<forall>t \<in> snd ` set ps. t \<notin> cur \<longrightarrow> t \<notin> fst ` set (taxonomy ?w1))
          \<longrightarrow> distinct (map snd ps) \<longrightarrow> taxonomy w' = taxonomy ?w1 @ att"
      by blast
    show ?thesis
      unfolding a
    proof (intro exI [of _ "(t, n, parent_of lin pos) # att"] conjI impI)
      show "executed w' = executed w @ map insert_stmt ((t, n, parent_of lin pos) # att)"
        using ex by (simp add: insert_stmt_def)
      show "subseq (map fst ((t, n, parent_of lin pos) # att))
              (filter (\<lambda>t. t \<notin> cur) (map snd ((pos, t) # ps)))"
        using sub ins(1) by simp
      assume inv: "\<forall>t' \<in> snd ` set ((pos, t) # ps). t' \<notin> cur \<longrightarrow> t' \<notin> fst ` set (taxonomy w)"
        and dist: "distinct (map snd ((pos, t) # ps))"
      have "\<forall>t' \<in> snd ` set ps. t' \<notin> cur \<longrightarrow> t' \<notin> fst ` set (taxonomy ?w1)"
        using inv dist by auto
      with tab dist show "taxonomy w' = taxonomy w @ (t, n, parent_of lin pos) # att"
        by simp
    qed
  qed
qed

subsection \<open>One resolution pass\<close>

lemma subseq_set_mono: "subseq xs ys \<Longrightarrow> set xs \<subseteq> set ys"
  by (auto elim: list_emb_set)

lemma subseq_distinct: "subseq xs ys \<Longrightarrow> distinct ys \<Longrightarrow> distinct xs"
proof (induction rule: list_emb.induct)
  case (list_emb_Nil ys)
  then show ?case by simp
next
  case (list_emb_Cons xs ys y)
  then show ?case by simp
next
  case (list_emb_Cons2 x y xs ys)
  then show ?case using subseq_set_mono [of xs ys] by auto
qed

lemma check_lineage_loop_eq:
  "check_lineage_loop ncbi S lin xs w =
     (if set xs \<subseteq> S then (Inr (), w) else update_taxonomy ncbi S lin w)"
  by (induction xs) auto

lemma update_taxonomy_skip:
  "set lin \<subseteq> S \<Longrightarrow> update_taxonomy ncbi S lin w = (Inr (), w)"
  unfolding update_taxonomy_def
  by (rule update_taxonomy_loop_skip) (simp flip: set_map)

lemma check_lineage_loop_rev:
  "check_lineage_loop ncbi S lin (rev lin) w = update_taxonomy ncbi S lin w"
  by (simp add: check_lineage_loop_eq update_taxonomy_skip)

lemma check_lineage_unfold:
  "get_lineage ncbi organism_name = Inr lin \<Longrightarrow>
   check_lineage ncbi organism_name w =
     (case update_taxonomy ncbi (set (map fst (taxonomy w))) lin
             (w\<lparr>executed := executed w @ [Select_tax_id]\<rparr>) of
        (Inl e, w2) \<Rightarrow> (Inl e, w2)
      | (Inr _, w2) \<Rightarrow>
          (case lin of [] \<Rightarrow> (Inl IndexError, w2) | _ # _ \<Rightarrow> (Inr (last lin), w2)))"
  by (simp add: check_lineage_def select_tax_id_def check_lineage_loop_rev)

lemma check_lineage_world:
  assumes "get_lineage ncbi organism_name = Inr lin"
    and "check_lineage ncbi organism_name w = (r, w')"
  obtains r0 where
    "update_taxonomy ncbi (set (map fst (taxonomy w))) lin
       (w\<lparr>executed := executed w @ [Select_tax_id]\<rparr>) = (r0, w')"
    "r = (case r0 of Inl e \<Rightarrow> Inl e
          | Inr _ \<Rightarrow> (case lin of [] \<Rightarrow> Inl IndexError | _ # _ \<Rightarrow> Inr (last lin)))"
  using assms(2) unfolding check_lineage_unfold [OF assms(1)]
  by (auto split: prod.splits sum.splits list.splits)

lemma update_taxonomy_trace:
  assumes "update_taxonomy ncbi cur lin w = (r, w')"
  obtains att where
    "executed w' = executed w @ map insert_stmt att"
    "subseq (map fst att) (filter (\<lambda>t. t \<notin> cur) lin)"
    "(\<forall>t \<in> set lin. t \<notin> cur \<longrightarrow> t \<notin> fst ` set (taxonomy w)) \<longrightarrow> distinct lin
       \<longrightarrow> taxonomy w' = taxonomy w @ att"
proof -
  from assms have run:
    "update_taxonomy_loop ncbi cur lin (enumerate 0 lin) w = (r, w')"
    by (simp add: update_taxonomy_def)
  have snd_enum: "snd ` set (enumerate 0 lin) = set lin"
    by (simp flip: set_map)
  from update_taxonomy_loop_trace [OF run] obtain att where
    "executed w' = executed w @ map insert_stmt att"
    "subseq (map fst att) (filter (\<lambda>t. t \<notin> cur) (map snd (enumerate 0 lin)))"
    "(\<forall>t \<in> snd ` set (enumerate 0 lin). t \<notin> cur \<longrightarrow> t \<notin> fst ` set (taxonomy w))
          \<longrightarrow> distinct (map snd (enumerate 0 lin)) \<longrightarrow> taxonomy w' = taxonomy w @ att"
    by blast
  then show thesis
    unfolding snd_enum map_snd_enumerate by (rule that)
qed

lemma subseq_filter_absent:
  assumes "subseq xs (filter (\<lambda>t. t \<notin> S) ys)"
  shows "set xs \<subseteq> set ys - S" and "distinct ys \<Longrightarrow> distinct xs"
proof -
  from subseq_set_mono [OF assms] show "set xs \<subseteq> set ys - S"
    by auto
  assume "distinct ys"
  then have "distinct (filter (\<lambda>t. t \<notin> S) ys)"
    by simp
  with assms show "distinct xs"
    by (rule subseq_distinct)
qed

text \<open>
  C10. For a lineage without repeated identifiers: the statements one call of
  \<^verbatim>\<open>update_taxonomy\<close> executes are inserts into the taxonomy table, only of lineage
  identifiers absent from the snapshot and at most one for each identifier; and in one
  pass of \<^verbatim>\<open>check_lineage\<close>, where the snapshot holds every identifier of the table,
  every insert that is executed appends its row: none meets a key that is present.
\<close>

theorem update_taxonomy_inserts_missing_once:
  assumes "distinct lineage"
  shows "(update_taxonomy ncbi current_tax lineage w = (r, w') \<longrightarrow>
           (\<exists>att. executed w' = executed w @ map insert_stmt att
              \<and> set (map fst att) \<subseteq> set lineage - current_tax
              \<and> distinct (map fst att)))
       \<and> (get_lineage ncbi organism_name = Inr lineage \<longrightarrow>
           check_lineage ncbi organism_name w = (r2, w2) \<longrightarrow>
           (\<exists>att. executed w2 = executed w @ Select_tax_id # map insert_stmt att
              \<and> set (map fst att) \<subseteq> set lineage - set (map fst (taxonomy w))
              \<and> distinct (map fst att)
              \<and> taxonomy w2 = taxonomy w @ att))"
proof (intro conjI impI)
  assume "update_taxonomy ncbi current_tax lineage w = (r, w')"
  then obtain att where
    ex: "executed w' = executed w @ map insert_stmt att" and
    sub: "subseq (map fst att) (filter (\<lambda>t. t \<notin> current_tax) lineage)"
    by (rule update_taxonomy_trace)
  from subseq_filter_absent [OF sub] assms ex
  show "\<exists>att. executed w' = executed w @ map insert_stmt att
      \<and> set (map fst att) \<subseteq> set lineage - current_tax \<and> distinct (map fst att)"
    by blast
next
  assume lin: "get_lineage ncbi organism_name = Inr lineage"
    and run: "check_lineage ncbi organism_name w = (r2, w2)"
  let ?S = "set (map fst (taxonomy w))"
  let ?w1 = "w\<lparr>executed := executed w @ [Select_tax_id]\<rparr>"
  from lin run obtain r0 where
    upd: "update_taxonomy ncbi ?S lineage ?w1 = (r0, w2)"
    by (rule check_lineage_world)
  from upd obtain att where
    ex: "executed w2 = executed ?w1 @ map insert_stmt att" and
    sub: "subseq (map fst att) (filter (\<lambda>t. t \<notin> ?S) lineage)" and
    tab: "(\<forall>t \<in> set lineage. t \<notin> ?S \<longrightarrow> t \<notin> fst ` set (taxonomy ?w1)) \<longrightarrow> distinct lineage
       \<longrightarrow> taxonomy w2 = taxonomy ?w1 @ att"
    by (rule update_taxonomy_trace)
  have ex': "executed w2 = executed w @ Select_tax_id # map insert_stmt att"
    using ex by simp
  have tab': "taxonomy w2 = taxonomy w @ att"
    using tab assms by simp
  from subseq_filter_absent [OF sub] assms ex' tab'
  show "\<exists>att. executed w2 = executed w @ Select_tax_id # map insert_stmt att
      \<and> set (map fst att) \<subseteq> set lineage - ?S \<and> distinct (map fst att)
      \<and> taxonomy w2 = taxonomy w @ att"
    by blast
qed

subsection \<open>The example pass and the duplicate key\<close>

lemma example_get_lineage:
  "get_lineage example_ncbi (Some ''Escherichia coli'') = Inr [131567, 2, 562]"
  by (simp add: get_lineage_def example_ncbi_def)

lemma example_update_taxonomy:
  "update_taxonomy example_ncbi {131567} [131567, 2, 562]
     (example_world\<lparr>executed := [Select_tax_id]\<rparr>) =
   (Inr (),
    example_world
      \<lparr>executed := [Select_tax_id, Insert_taxonomy 2 ''Bacteria'' (Some 131567),
                    Insert_taxonomy 562 ''Escherichia coli'' (Some 2)],
       taxonomy := [(131567, ''cellular organisms'', None), (2, ''Bacteria'', Some 131567),
                    (562, ''Escherichia coli'', Some 2)]\<rparr>)"
  by (simp add: update_taxonomy_def example_ncbi_def example_world_def insert_taxonomy_def
      parent_of_def)

lemma example_check_lineage:
  "check_lineage example_ncbi (Some ''Escherichia coli'') example_world =
   (Inr 562,
    example_world
      \<lparr>executed := [Select_tax_id, Insert_taxonomy 2 ''Bacteria'' (Some 131567),
                    Insert_taxonomy 562 ''Escherichia coli'' (Some 2)],
       taxonomy := [(131567, ''cellular organisms'', None), (2, ''Bacteria'', Some 131567),
                    (562, ''Escherichia coli'', Some 2)]\<rparr>)"
proof -
  have snap: "set (map fst (taxonomy example_world)) = {131567}"
    "example_world\<lparr>executed := executed example_world @ [Select_tax_id]\<rparr>
       = example_world\<lparr>executed := [Select_tax_id]\<rparr>"
    by (simp_all add: example_world_def)
  show ?thesis
    unfolding check_lineage_unfold [OF example_get_lineage] snap example_update_taxonomy
    by simp
qed

theorem update_taxonomy_inserts_missing_once_witness:
  "distinct [131567, 2, 562 :: int]
   \<and> (\<exists>att. executed (snd (update_taxonomy example_ncbi {131567} [131567, 2, 562]
                              example_world))
              = executed example_world @ map insert_stmt att
          \<and> set (map fst att) \<subseteq> set [131567, 2, 562] - {131567}
          \<and> distinct (map fst att))
   \<and> (\<exists>att. executed (snd (check_lineage example_ncbi (Some ''Escherichia coli'') example_world))
              = executed example_world @ Select_tax_id # map insert_stmt att
          \<and> set (map fst att) \<subseteq> set [131567, 2, 562] - set (map fst (taxonomy example_world))
          \<and> distinct (map fst att)
          \<and> taxonomy (snd (check_lineage example_ncbi (Some ''Escherichia coli'') example_world))
              = taxonomy example_world @ att)"
proof -
  have d: "distinct [131567, 2, 562 :: int]" by simp
  note inst = update_taxonomy_inserts_missing_once [OF d, of example_ncbi "{131567}"
      example_world
      "fst (update_taxonomy example_ncbi {131567} [131567, 2, 562] example_world)"
      "snd (update_taxonomy example_ncbi {131567} [131567, 2, 562] example_world)"
      "Some ''Escherichia coli''"
      "fst (check_lineage example_ncbi (Some ''Escherichia coli'') example_world)"
      "snd (check_lineage example_ncbi (Some ''Escherichia coli'') example_world)"]
  from inst d show ?thesis
    unfolding example_get_lineage by simp
qed

text \<open>
  C5. The claim: inserting a taxon row whose identifier is present is a silent no-op,
  by the store's duplicate-ignore semantics. The code: the taxonomy insert is the one
  insert written without \<^verbatim>\<open>ignore\<close>, so on a present identifier it raises; with a
  snapshot taken before the row was there, \<^verbatim>\<open>update_taxonomy\<close> raises with it.
\<close>

theorem taxonomy_reinsert_raises:
  "insert_taxonomy 131567 ''cellular organisms'' None example_world =
     (Inl IntegrityError,
      example_world\<lparr>executed := [Insert_taxonomy 131567 ''cellular organisms'' None]\<rparr>)
   \<and> update_taxonomy example_ncbi {} [131567] example_world =
     (Inl IntegrityError,
      example_world\<lparr>executed := [Insert_taxonomy 131567 ''cellular organisms'' None]\<rparr>)"
  by (simp add: update_taxonomy_def example_ncbi_def example_world_def insert_taxonomy_def
      parent_of_def)

subsection \<open>Parents and the chain\<close>

lemma parent_of_append:
  "parent_of (xs @ ys) (length xs) = (if xs = [] then None else Some (last xs))"
proof (cases "xs = []")
  case True
  then show ?thesis by (simp add: parent_of_def)
next
  case False
  then have "(xs @ ys) ! (length xs - 1) = last xs"
    by (simp add: nth_append last_conv_nth)
  moreover from False have "int (length xs) - 1 \<ge> 0"
    by (cases xs) auto
  ultimately show ?thesis
    using False by (simp add: parent_of_def)
qed

lemma update_taxonomy_loop_chain:
  assumes "lin = xs @ ys"
    and "update_taxonomy_loop ncbi cur lin (enumerate (length xs) ys) w = (r, w')"
  shows "\<exists>rows. taxonomy w' = taxonomy w @ rows
     \<and> prefix (map (\<lambda>(t, n, p). (t, p)) rows)
          (filter (\<lambda>(t, p). t \<notin> cur)
             (zip ys ((if xs = [] then None else Some (last xs)) # map Some ys)))
     \<and> (r = Inr () \<longrightarrow>
          map (\<lambda>(t, n, p). (t, p)) rows =
          filter (\<lambda>(t, p). t \<notin> cur)
             (zip ys ((if xs = [] then None else Some (last xs)) # map Some ys)))
     \<and> (cur \<subseteq> fst ` set (taxonomy w) \<longrightarrow> (xs = [] \<or> last xs \<in> fst ` set (taxonomy w))
          \<longrightarrow> parents_present (fst ` set (taxonomy w)) rows)"
  using assms
proof (induction ys arbitrary: xs w)
  case Nil
  then show ?case by (intro exI [of _ "[]"]) simp
next
  case (Cons y ys)
  let ?prev = "if xs = [] then None else Some (last xs)"
  have lin': "lin = (xs @ [y]) @ ys"
    using Cons.prems(1) by simp
  have par: "parent_of lin (length xs) = ?prev"
    unfolding Cons.prems(1) by (rule parent_of_append)
  from Cons.prems(2) have run:
    "update_taxonomy_loop ncbi cur lin
       ((length xs, y) # enumerate (length (xs @ [y])) ys) w = (r, w')"
    by simp
  from run show ?case
  proof (cases rule: update_taxonomy_loop_Cons_cases)
    case skip
    from Cons.IH [OF lin' skip(2)] obtain rows where
      tab: "taxonomy w' = taxonomy w @ rows" and
      pre: "prefix (map (\<lambda>(t, n, p). (t, p)) rows)
              (filter (\<lambda>(t, p). t \<notin> cur) (zip ys (Some y # map Some ys)))" and
      full: "r = Inr () \<longrightarrow> map (\<lambda>(t, n, p). (t, p)) rows =
              filter (\<lambda>(t, p). t \<notin> cur) (zip ys (Some y # map Some ys))" and
      par_ok: "cur \<subseteq> fst ` set (taxonomy w) \<longrightarrow> y \<in> fst ` set (taxonomy w)
              \<longrightarrow> parents_present (fst ` set (taxonomy w)) rows"
      by auto
    show ?thesis
    proof (intro exI [of _ rows] conjI impI)
      show "taxonomy w' = taxonomy w @ rows" by (rule tab)
      show "prefix (map (\<lambda>(t, n, p). (t, p)) rows)
              (filter (\<lambda>(t, p). t \<notin> cur) (zip (y # ys) (?prev # map Some (y # ys))))"
        using pre skip(1) by simp
      show "map (\<lambda>(t, n, p). (t, p)) rows =
              filter (\<lambda>(t, p). t \<notin> cur) (zip (y # ys) (?prev # map Some (y # ys)))"
        if "r = Inr ()"
        using full that skip(1) by simp
      show "parents_present (fst ` set (taxonomy w)) rows"
        if "cur \<subseteq> fst ` set (taxonomy w)"
        using par_ok that skip(1) by blast
    qed
  next
    case (no_name e)
    then show ?thesis by (intro exI [of _ "[]"]) simp
  next
    case (dup n)
    then show ?thesis by (intro exI [of _ "[]"]) simp
  next
    case (ins n)
    let ?row = "(y, n, ?prev)"
    let ?w1 = "w\<lparr>executed := executed w @ [Insert_taxonomy y n (parent_of lin (length xs))],
                  taxonomy := taxonomy w @ [(y, n, parent_of lin (length xs))]\<rparr>"
    have ids1: "fst ` set (taxonomy ?w1) = insert y (fst ` set (taxonomy w))"
      by simp
    from Cons.IH [OF lin' ins(3)] obtain rows where
      tab: "taxonomy w' = taxonomy ?w1 @ rows" and
      pre: "prefix (map (\<lambda>(t, n, p). (t, p)) rows)
              (filter (\<lambda>(t, p). t \<notin> cur) (zip ys (Some y # map Some ys)))" and
      full: "r = Inr () \<longrightarrow> map (\<lambda>(t, n, p). (t, p)) rows =
              filter (\<lambda>(t, p). t \<notin> cur) (zip ys (Some y # map Some ys))" and
      par_ok: "cur \<subseteq> fst ` set (taxonomy ?w1) \<longrightarrow> y \<in> fst ` set (taxonomy ?w1)
              \<longrightarrow> parents_present (fst ` set (taxonomy ?w1)) rows"
      by auto
    show ?thesis
    proof (intro exI [of _ "?row # rows"] conjI impI)
      show "taxonomy w' = taxonomy w @ ?row # rows"
        using tab par by simp
      show "prefix (map (\<lambda>(t, n, p). (t, p)) (?row # rows))
              (filter (\<lambda>(t, p). t \<notin> cur) (zip (y # ys) (?prev # map Some (y # ys))))"
        using pre ins(1) by simp
      show "map (\<lambda>(t, n, p). (t, p)) (?row # rows) =
              filter (\<lambda>(t, p). t \<notin> cur) (zip (y # ys) (?prev # map Some (y # ys)))"
        if "r = Inr ()"
        using full that ins(1) by simp
      show "parents_present (fst ` set (taxonomy w)) (?row # rows)"
        if sub: "cur \<subseteq> fst ` set (taxonomy w)"
          and prev: "xs = [] \<or> last xs \<in> fst ` set (taxonomy w)"
      proof -
        from sub have "cur \<subseteq> fst ` set (taxonomy ?w1)"
          unfolding ids1 by blast
        with par_ok have "parents_present (insert y (fst ` set (taxonomy w))) rows"
          unfolding ids1 by blast
        then show ?thesis
          using prev by auto
      qed
    qed
  qed
qed

lemma update_taxonomy_chain:
  assumes "update_taxonomy ncbi cur lin w = (r, w')"
  obtains rows where
    "taxonomy w' = taxonomy w @ rows"
    "prefix (map (\<lambda>(t, n, p). (t, p)) rows) (filter (\<lambda>(t, p). t \<notin> cur) (spec_chain lin))"
    "r = Inr () \<longrightarrow>
       map (\<lambda>(t, n, p). (t, p)) rows = filter (\<lambda>(t, p). t \<notin> cur) (spec_chain lin)"
    "cur \<subseteq> fst ` set (taxonomy w) \<longrightarrow> parents_present (fst ` set (taxonomy w)) rows"
proof -
  have split: "lin = [] @ lin"
    by simp
  from assms have run:
    "update_taxonomy_loop ncbi cur lin (enumerate (length ([] :: int list)) lin) w = (r, w')"
    by (simp add: update_taxonomy_def)
  from update_taxonomy_loop_chain [OF split run] obtain rows where
    "taxonomy w' = taxonomy w @ rows"
    "prefix (map (\<lambda>(t, n, p). (t, p)) rows)
       (filter (\<lambda>(t, p). t \<notin> cur) (zip lin (None # map Some lin)))"
    "r = Inr () \<longrightarrow> map (\<lambda>(t, n, p). (t, p)) rows =
       filter (\<lambda>(t, p). t \<notin> cur) (zip lin (None # map Some lin))"
    "cur \<subseteq> fst ` set (taxonomy w) \<longrightarrow> parents_present (fst ` set (taxonomy w)) rows"
    by auto
  then show thesis
    unfolding spec_chain_def [symmetric] by (rule that)
qed

lemma check_lineage_failed_lookup:
  "get_lineage ncbi organism_name = Inl e \<Longrightarrow>
   check_lineage ncbi organism_name w = (Inl e, w\<lparr>executed := executed w @ [Select_tax_id]\<rparr>)"
  by (simp add: check_lineage_def select_tax_id_def)

text \<open>
  C6. In one pass of \<^verbatim>\<open>check_lineage\<close> the taxonomy table only grows, and every row
  appended has a null parent or a parent that is an identifier of the table before the
  pass or of a row appended earlier in the pass. The rows appended follow the lineage
  from root to leaf: they are an initial part of the missing elements of the
  specification's chain (each element with the previous one as parent, null for the
  first), and all of them when the pass returns.
\<close>

theorem check_lineage_parent_before_child:
  assumes "check_lineage ncbi organism_name w = (r, w')"
  shows "\<exists>rows. taxonomy w' = taxonomy w @ rows
     \<and> parents_present (set (map fst (taxonomy w))) rows
     \<and> (case get_lineage ncbi organism_name of
          Inl e \<Rightarrow> rows = []
        | Inr lineage \<Rightarrow>
            prefix (map (\<lambda>(t, n, p). (t, p)) rows)
              (filter (\<lambda>(t, p). t \<notin> set (map fst (taxonomy w))) (spec_chain lineage))
            \<and> (r = Inr (last lineage) \<longrightarrow>
                 map (\<lambda>(t, n, p). (t, p)) rows =
                 filter (\<lambda>(t, p). t \<notin> set (map fst (taxonomy w))) (spec_chain lineage)))"
proof (cases "get_lineage ncbi organism_name")
  case (Inl e)
  from assms have "w' = w\<lparr>executed := executed w @ [Select_tax_id]\<rparr>"
    unfolding check_lineage_failed_lookup [OF Inl] by simp
  then show ?thesis
    using Inl by (intro exI [of _ "[]"]) simp
next
  case (Inr lineage)
  let ?S = "set (map fst (taxonomy w))"
  let ?w1 = "w\<lparr>executed := executed w @ [Select_tax_id]\<rparr>"
  from Inr assms obtain r0 where
    upd: "update_taxonomy ncbi ?S lineage ?w1 = (r0, w')" and
    res: "r = (case r0 of Inl e \<Rightarrow> Inl e
          | Inr _ \<Rightarrow> (case lineage of [] \<Rightarrow> Inl IndexError | _ # _ \<Rightarrow> Inr (last lineage)))"
    by (rule check_lineage_world)
  from upd obtain rows where
    tab: "taxonomy w' = taxonomy ?w1 @ rows" and
    pre: "prefix (map (\<lambda>(t, n, p). (t, p)) rows)
            (filter (\<lambda>(t, p). t \<notin> ?S) (spec_chain lineage))" and
    full: "r0 = Inr () \<longrightarrow>
       map (\<lambda>(t, n, p). (t, p)) rows = filter (\<lambda>(t, p). t \<notin> ?S) (spec_chain lineage)" and
    par: "?S \<subseteq> fst ` set (taxonomy ?w1) \<longrightarrow> parents_present (fst ` set (taxonomy ?w1)) rows"
    by (rule update_taxonomy_chain)
  have r0: "r0 = Inr ()" if "r = Inr (last lineage)"
    using res that by (cases r0) auto
  have "taxonomy w' = taxonomy w @ rows"
    using tab by simp
  moreover have "parents_present ?S rows"
    using par by simp
  moreover have "r = Inr (last lineage) \<longrightarrow>
      map (\<lambda>(t, n, p). (t, p)) rows = filter (\<lambda>(t, p). t \<notin> ?S) (spec_chain lineage)"
    using full r0 by blast
  ultimately show ?thesis
    using pre Inr by (intro exI [of _ rows]) simp
qed

lemma update_taxonomy_loop_success:
  assumes "\<forall>t \<in> snd ` set ps. t \<notin> cur \<longrightarrow> t \<notin> fst ` set (taxonomy w)"
    and "distinct (map snd ps)"
    and "\<forall>t \<in> snd ` set ps. t \<notin> cur \<longrightarrow>
           (\<exists>tr n. get_taxid_translator ncbi [t] = Inr tr \<and> tr t = Some n)"
  shows "\<exists>w'. update_taxonomy_loop ncbi cur lin ps w = (Inr (), w')
     \<and> map fst (taxonomy w') = map fst (taxonomy w) @ filter (\<lambda>t. t \<notin> cur) (map snd ps)"
  using assms
proof (induction ps arbitrary: w)
  case Nil
  then show ?case by simp
next
  case (Cons a ps)
  obtain pos t where a: "a = (pos, t)" by (cases a)
  have rest_names:
    "\<forall>t \<in> snd ` set ps. t \<notin> cur \<longrightarrow>
       (\<exists>tr n. get_taxid_translator ncbi [t] = Inr tr \<and> tr t = Some n)"
    using Cons.prems(3) by simp
  have rest_distinct: "distinct (map snd ps)" and fresh: "t \<notin> snd ` set ps"
    using Cons.prems(2) unfolding a by auto
  show ?case
  proof (cases "t \<in> cur")
    case True
    have "\<forall>t \<in> snd ` set ps. t \<notin> cur \<longrightarrow> t \<notin> fst ` set (taxonomy w)"
      using Cons.prems(1) by simp
    from Cons.IH [OF this rest_distinct rest_names] True show ?thesis
      unfolding a by simp
  next
    case False
    with Cons.prems(3) obtain tr n where
      name: "get_taxid_translator ncbi [t] = Inr tr" "tr t = Some n"
      unfolding a by auto
    let ?w1 = "w\<lparr>executed := executed w @ [Insert_taxonomy t n (parent_of lin pos)],
                  taxonomy := taxonomy w @ [(t, n, parent_of lin pos)]\<rparr>"
    from False Cons.prems(1) have absent: "t \<notin> fst ` set (taxonomy w)"
      unfolding a by simp
    have "\<forall>t' \<in> snd ` set ps. t' \<notin> cur \<longrightarrow> t' \<notin> fst ` set (taxonomy ?w1)"
      using Cons.prems(1) fresh by auto
    from Cons.IH [OF this rest_distinct rest_names] obtain w' where
      "update_taxonomy_loop ncbi cur lin ps ?w1 = (Inr (), w')"
      "map fst (taxonomy w') = map fst (taxonomy ?w1) @ filter (\<lambda>t. t \<notin> cur) (map snd ps)"
      by blast
    then show ?thesis
      unfolding a using False name by (simp add: insert_taxonomy_absent [OF absent])
  qed
qed

text \<open>
  C7, as the code has it. For a name the taxonomy source resolves to a lineage that,
  with the root dropped, is not empty and has no repeated identifier, and whose
  identifiers missing from the table all have a name in the source: the first run of
  \<^verbatim>\<open>check_lineage\<close> returns the last identifier of the lineage; a second run on the
  world the first one left returns the same identifier and executes nothing but its
  query of the present identifiers, so it writes no row; and a taxonomy table without
  repeated identifiers has none after the two runs.
\<close>

theorem check_lineage_twice:
  assumes "get_lineage ncbi organism_name = Inr lineage"
    and "lineage \<noteq> []"
    and "distinct lineage"
    and "\<forall>t \<in> set lineage. t \<notin> set (map fst (taxonomy w)) \<longrightarrow>
           (\<exists>tr n. get_taxid_translator ncbi [t] = Inr tr \<and> tr t = Some n)"
    and "check_lineage ncbi organism_name w = (r1, w1)"
    and "check_lineage ncbi organism_name w1 = (r2, w2)"
  shows "r1 = Inr (last lineage) \<and> r2 = Inr (last lineage)
     \<and> w2 = w1\<lparr>executed := executed w1 @ [Select_tax_id]\<rparr>
     \<and> (distinct (map fst (taxonomy w)) \<longrightarrow> distinct (map fst (taxonomy w2)))"
proof -
  let ?S = "set (map fst (taxonomy w))"
  let ?w0 = "w\<lparr>executed := executed w @ [Select_tax_id]\<rparr>"
  obtain x xs where lin: "lineage = x # xs"
    using assms(2) by (cases lineage) auto
  have "\<forall>t \<in> snd ` set (enumerate 0 lineage). t \<notin> ?S \<longrightarrow> t \<notin> fst ` set (taxonomy ?w0)"
    by simp
  moreover have "distinct (map snd (enumerate 0 lineage))"
    using assms(3) by simp
  moreover have "\<forall>t \<in> snd ` set (enumerate 0 lineage). t \<notin> ?S \<longrightarrow>
      (\<exists>tr n. get_taxid_translator ncbi [t] = Inr tr \<and> tr t = Some n)"
    using assms(4) by (simp flip: set_map)
  ultimately obtain wa where
    upd: "update_taxonomy ncbi ?S lineage ?w0 = (Inr (), wa)" and
    ids: "map fst (taxonomy wa) = map fst (taxonomy ?w0) @ filter (\<lambda>t. t \<notin> ?S) lineage"
    using update_taxonomy_loop_success [of "enumerate 0 lineage" ?S ?w0 ncbi lineage]
    unfolding update_taxonomy_def by auto
  have first: "check_lineage ncbi organism_name w = (Inr (last lineage), wa)"
    unfolding check_lineage_unfold [OF assms(1)] upd by (simp add: lin)
  with assms(5) have r1: "r1 = Inr (last lineage)" and w1: "w1 = wa"
    by simp_all
  have ids1: "map fst (taxonomy w1) = map fst (taxonomy w) @ filter (\<lambda>t. t \<notin> ?S) lineage"
    using ids w1 by simp
  then have covered: "set lineage \<subseteq> set (map fst (taxonomy w1))"
    by auto
  have second: "check_lineage ncbi organism_name w1 =
      (Inr (last lineage), w1\<lparr>executed := executed w1 @ [Select_tax_id]\<rparr>)"
    unfolding check_lineage_unfold [OF assms(1)] update_taxonomy_skip [OF covered]
    by (simp add: lin)
  with assms(6) have r2: "r2 = Inr (last lineage)"
    and w2: "w2 = w1\<lparr>executed := executed w1 @ [Select_tax_id]\<rparr>"
    by simp_all
  have "distinct (map fst (taxonomy w2))" if "distinct (map fst (taxonomy w))"
  proof -
    have "distinct (map fst (taxonomy w) @ filter (\<lambda>t. t \<notin> ?S) lineage)"
      using that assms(3) by auto
    then show ?thesis
      using ids1 w2 by simp
  qed
  with r1 r2 w2 show ?thesis
    by blast
qed

subsection \<open>The example pass, twice\<close>

lemma example_check_lineage_resolved:
  "check_lineage example_ncbi (Some ''Escherichia coli'') example_world =
     (Inr 562, example_world_resolved)"
  unfolding example_check_lineage example_world_resolved_def by simp

theorem check_lineage_parent_before_child_witness:
  "check_lineage example_ncbi (Some ''Escherichia coli'') example_world =
     (Inr 562, example_world_resolved)
   \<and> (\<exists>rows. taxonomy example_world_resolved = taxonomy example_world @ rows
        \<and> parents_present {131567} rows
        \<and> map (\<lambda>(t, n, p). (t, p)) rows = [(2, Some 131567), (562, Some 2)])"
proof -
  have ids: "set (map fst (taxonomy example_world)) = {131567}"
    by (simp add: example_world_def)
  from check_lineage_parent_before_child [OF example_check_lineage_resolved]
  show ?thesis
    unfolding example_get_lineage ids
    using example_check_lineage_resolved by (auto simp add: spec_chain_def)
qed

lemma example_names:
  "\<forall>t \<in> set [131567, 2, 562]. t \<notin> set (map fst (taxonomy example_world)) \<longrightarrow>
     (\<exists>tr n. get_taxid_translator example_ncbi [t] = Inr tr \<and> tr t = Some n)"
  by (simp add: example_ncbi_def)

theorem check_lineage_twice_witness:
  "check_lineage example_ncbi (Some ''Escherichia coli'') example_world =
     (Inr 562, example_world_resolved)
   \<and> check_lineage example_ncbi (Some ''Escherichia coli'') example_world_resolved =
     (Inr 562, example_world_resolved
        \<lparr>executed := executed example_world_resolved @ [Select_tax_id]\<rparr>)
   \<and> distinct (map fst (taxonomy example_world_resolved))"
proof -
  have ne: "[131567, 2, 562] \<noteq> ([] :: int list)" and d: "distinct [131567, 2, 562 :: int]"
    by simp_all
  have d0: "distinct (map fst (taxonomy example_world))"
    by (simp add: example_world_def)
  obtain r2 w2 where second:
    "check_lineage example_ncbi (Some ''Escherichia coli'') example_world_resolved = (r2, w2)"
    by (cases "check_lineage example_ncbi (Some ''Escherichia coli'') example_world_resolved")
  from check_lineage_twice [OF example_get_lineage ne d example_names
      example_check_lineage_resolved second] d0
  show ?thesis
    unfolding second using example_check_lineage_resolved by auto
qed

subsection \<open>The worker and a failed lookup\<close>

lemma check_lineage_empty:
  "get_lineage ncbi organism_name = Inr [] \<Longrightarrow>
   check_lineage ncbi organism_name w =
     (Inl IndexError, w\<lparr>executed := executed w @ [Select_tax_id]\<rparr>)"
  by (simp add: check_lineage_def select_tax_id_def)

lemma save_alignments_raises:
  "save_alignment ncbi fragment_data alignment w = (Inl e, w') \<Longrightarrow>
   save_alignments ncbi fragment_data (alignment # rest) w = (Inl e, w')"
  by simp

lemma save_alignments_continues:
  "save_alignment ncbi fragment_data alignment w = (Inr u, w') \<Longrightarrow>
   save_alignments ncbi fragment_data (alignment # rest) w =
     save_alignments ncbi fragment_data rest w'"
  by simp

lemma save_alignment_empty_lineage:
  assumes "extract_results alignment = Inr res"
    and "get_lineage ncbi (res_organism_name res) = Inr []"
  shows "save_alignment ncbi fragment_data alignment w =
           (Inl IndexError, w\<lparr>executed := executed w @ [Select_tax_id]\<rparr>)"
proof -
  let ?w1 = "w\<lparr>executed := executed w @ [Select_tax_id]\<rparr>"
  have "check_lineage ncbi (res_organism_name res) w = (Inl IndexError, ?w1)"
    using assms(2) by (rule check_lineage_empty)
  then have "resolve_tax_id ncbi (res_organism_name res) w = (Inl IndexError, ?w1)"
    by (simp add: resolve_tax_id_def)
  then have "try_resolve ncbi fragment_data res w = (Inl IndexError, ?w1)"
    by (simp add: try_resolve_def)
  then show ?thesis
    using assms(1) by (simp add: save_alignment_def)
qed

text \<open>
  C4, as the code has it. A lineage of length zero makes \<^verbatim>\<open>check_lineage\<close> raise
  \<^verbatim>\<open>IndexError\<close> after its query and with no write. The worker does not recover: its
  handler is for \<^verbatim>\<open>KeyError\<close> only, so the exception leaves the loop over the
  alignments; nothing is printed, no row is written for the record, and the records
  after it are not processed.
\<close>

theorem empty_lineage_aborts_fragment:
  assumes "extract_results alignment = Inr res"
    and "get_lineage ncbi (res_organism_name res) = Inr []"
  shows "check_lineage ncbi (res_organism_name res) w =
           (Inl IndexError, w\<lparr>executed := executed w @ [Select_tax_id]\<rparr>)
     \<and> save_alignments ncbi fragment_data (alignment # rest) w =
           (Inl IndexError, w\<lparr>executed := executed w @ [Select_tax_id]\<rparr>)"
  using check_lineage_empty [OF assms(2)]
    save_alignments_raises [OF save_alignment_empty_lineage [OF assms]]
  by blast

lemma resolve_unknown_organism:
  "get_lineage ncbi organism_name = Inl KeyError \<Longrightarrow>
   resolve_tax_id ncbi organism_name w =
     (Inl KeyError, w\<lparr>executed := executed w @ [Select_tax_id]\<rparr>)"
  by (simp add: resolve_tax_id_def check_lineage_def select_tax_id_def)

text \<open>
  C8, as the code has it. When the lookup of a record raises \<^verbatim>\<open>KeyError\<close>, as it does
  when the taxonomy source does not know the organism name, the worker prints one line
  with the fragment header, the attempted name and the hit title, writes the record's
  protein row with a null taxon (unless the accession is present) and its alignment row,
  and goes on with the fragment's other records.
\<close>

theorem keyerror_lookup_recovers:
  assumes "extract_results alignment = Inr res"
    and "resolve_tax_id ncbi (res_organism_name res) w = (Inl KeyError, w1)"
    and "w' = snd (save_alignment ncbi (header # more_fields) alignment w)"
  shows "save_alignment ncbi (header # more_fields) alignment w = (Inr (), w')
     \<and> console w' = console w1
          @ [''An error occurred while looking up the data of '' @ header @ '' as ''
             @ (case res_organism_name res of None \<Rightarrow> ''None'' | Some n \<Rightarrow> n)
             @ '',with title '' @ res_title res]
     \<and> protein w' =
          (if res_accession res \<in> set (map fst (protein w1)) then protein w1
           else protein w1 @ [(res_accession res, None, None, res_protein_name res)])
     \<and> blast_result w' = blast_result w1
          @ [(fragment_id_of header (fragment w1), res_accession res, res_score res,
              res_expect res, res_identities res, res_positives res, res_gaps res)]
     \<and> executed w' = executed w1
          @ [Insert_ignore_protein (res_accession res) None (res_protein_name res),
             Insert_blast_result header (res_accession res) (res_score res) (res_expect res)
               (res_identities res) (res_positives res) (res_gaps res)]
     \<and> taxonomy w' = taxonomy w1 \<and> fragment w' = fragment w1
     \<and> save_alignments ncbi (header # more_fields) (alignment # rest) w =
          save_alignments ncbi (header # more_fields) rest w'
     \<and> (get_lineage ncbi (res_organism_name res) = Inl KeyError \<longrightarrow>
          w1 = w\<lparr>executed := executed w @ [Select_tax_id]\<rparr>)"
proof -
  let ?line = "''An error occurred while looking up the data of '' @ header @ '' as ''
             @ (case res_organism_name res of None \<Rightarrow> ''None'' | Some n \<Rightarrow> n)
             @ '',with title '' @ res_title res"
  have "try_resolve ncbi (header # more_fields) res w =
      (Inr None, w1\<lparr>console := console w1 @ [?line]\<rparr>)"
    using assms(2) by (simp add: try_resolve_def lookup_message_def)
  then have run: "save_alignment ncbi (header # more_fields) alignment w =
      insert_blast_result header (res_accession res) (res_score res) (res_expect res)
        (res_identities res) (res_positives res) (res_gaps res)
        (snd (insert_ignore_protein (res_accession res) None (res_protein_name res)
               (w1\<lparr>console := console w1 @ [?line]\<rparr>)))"
    using assms(1) by (simp add: save_alignment_def insert_ignore_protein_def Let_def)
  have ok: "save_alignment ncbi (header # more_fields) alignment w = (Inr (), w')"
    unfolding assms(3) run by (simp add: insert_blast_result_def)
  have w': "w' = snd (insert_blast_result header (res_accession res) (res_score res)
        (res_expect res) (res_identities res) (res_positives res) (res_gaps res)
        (snd (insert_ignore_protein (res_accession res) None (res_protein_name res)
               (w1\<lparr>console := console w1 @ [?line]\<rparr>))))"
    unfolding assms(3) run by simp
  have fields_ok: "console w' = console w1 @ [?line]"
    "protein w' =
          (if res_accession res \<in> set (map fst (protein w1)) then protein w1
           else protein w1 @ [(res_accession res, None, None, res_protein_name res)])"
    "blast_result w' = blast_result w1
          @ [(fragment_id_of header (fragment w1), res_accession res, res_score res,
              res_expect res, res_identities res, res_positives res, res_gaps res)]"
    "executed w' = executed w1
          @ [Insert_ignore_protein (res_accession res) None (res_protein_name res),
             Insert_blast_result header (res_accession res) (res_score res) (res_expect res)
               (res_identities res) (res_positives res) (res_gaps res)]"
    "taxonomy w' = taxonomy w1" "fragment w' = fragment w1"
    unfolding w' by (simp_all add: insert_blast_result_def insert_ignore_protein_def Let_def)
  have cont: "save_alignments ncbi (header # more_fields) (alignment # rest) w =
          save_alignments ncbi (header # more_fields) rest w'"
    using ok by (rule save_alignments_continues)
  have unknown: "w1 = w\<lparr>executed := executed w @ [Select_tax_id]\<rparr>"
    if "get_lineage ncbi (res_organism_name res) = Inl KeyError"
    using resolve_unknown_organism [OF that, of w] assms(2) by simp
  from ok fields_ok cont unknown show ?thesis
    by blast
qed

subsection \<open>The worker on the example data\<close>

lemma example_get_lineage_root: "get_lineage example_ncbi (Some ''root'') = Inr []"
  by (simp add: get_lineage_def example_ncbi_def)

lemma example_get_lineage_unknown:
  "get_lineage example_ncbi (Some ''Unknownium fictum'') = Inl KeyError"
  by (simp add: get_lineage_def example_ncbi_def)

lemma example_extract_root:
  "extract_results (example_hit ''hypothetical protein [root]'' ''WP_000001'') =
     Inr \<lparr>res_score = 250, res_expect = 0, res_identities = 48, res_gaps = 0,
          res_positives = 50, res_accession = ''WP_000001'',
          res_protein_name = ''hypothetical protein'', res_organism_name = Some ''root'',
          res_title = ''hypothetical protein [root]''\<rparr>"
  by (simp add: extract_results_def example_hit_def title_parse_def split1_def strip_def
      isspace_def)

lemma example_extract_kinase:
  "extract_results (example_hit ''putative kinase [root]'' ''WP_000003'') =
     Inr \<lparr>res_score = 250, res_expect = 0, res_identities = 48, res_gaps = 0,
          res_positives = 50, res_accession = ''WP_000003'',
          res_protein_name = ''putative kinase'', res_organism_name = Some ''root'',
          res_title = ''putative kinase [root]''\<rparr>"
  by (simp add: extract_results_def example_hit_def title_parse_def split1_def strip_def
      isspace_def)

lemma example_extract_unknown:
  "extract_results (example_hit ''hypothetical protein [Unknownium fictum]'' ''WP_000004'') =
     Inr \<lparr>res_score = 250, res_expect = 0, res_identities = 48, res_gaps = 0,
          res_positives = 50, res_accession = ''WP_000004'',
          res_protein_name = ''hypothetical protein'',
          res_organism_name = Some ''Unknownium fictum'',
          res_title = ''hypothetical protein [Unknownium fictum]''\<rparr>"
  by (simp add: extract_results_def example_hit_def title_parse_def split1_def strip_def
      isspace_def)

lemma example_save_root:
  "save_alignment example_ncbi example_fragment
     (example_hit ''hypothetical protein [root]'' ''WP_000001'') w =
   (Inl IndexError, w\<lparr>executed := executed w @ [Select_tax_id]\<rparr>)"
  by (rule save_alignment_empty_lineage [OF example_extract_root])
    (simp add: example_get_lineage_root)

text \<open>
  C4. The claim: after a lineage of length zero the record is logged, gets a null taxon
  and the other records of the fragment are processed. The code, on a fragment whose
  first hit names the organism \<^verbatim>\<open>root\<close> (its lineage without the root is empty) and
  whose second hit is a known organism: the worker raises \<^verbatim>\<open>IndexError\<close>, prints
  nothing and writes no protein and no alignment row, for neither record.
\<close>

theorem empty_lineage_not_recovered:
  "fst (blast_results_save Inr example_ncbi example_fragment
          [example_hit ''hypothetical protein [root]'' ''WP_000001'',
           example_hit ''chaperonin GroEL [Escherichia coli]'' ''WP_000002'']
          example_world) = Inl IndexError
   \<and> console (snd (blast_results_save Inr example_ncbi example_fragment
          [example_hit ''hypothetical protein [root]'' ''WP_000001'',
           example_hit ''chaperonin GroEL [Escherichia coli]'' ''WP_000002'']
          example_world)) = []
   \<and> protein (snd (blast_results_save Inr example_ncbi example_fragment
          [example_hit ''hypothetical protein [root]'' ''WP_000001'',
           example_hit ''chaperonin GroEL [Escherichia coli]'' ''WP_000002'']
          example_world)) = []
   \<and> blast_result (snd (blast_results_save Inr example_ncbi example_fragment
          [example_hit ''hypothetical protein [root]'' ''WP_000001'',
           example_hit ''chaperonin GroEL [Escherichia coli]'' ''WP_000002'']
          example_world)) = []"
proof -
  have frag: "insert_ignore_fragment example_fragment example_world =
      (Inr (), example_world\<lparr>executed := [Insert_ignore_fragment example_fragment]\<rparr>)"
    by (simp add: insert_ignore_fragment_def example_fragment_def example_world_def)
  have "blast_results_save Inr example_ncbi example_fragment
          [example_hit ''hypothetical protein [root]'' ''WP_000001'',
           example_hit ''chaperonin GroEL [Escherichia coli]'' ''WP_000002'']
          example_world =
        (Inl IndexError,
         example_world\<lparr>executed := [Insert_ignore_fragment example_fragment, Select_tax_id]\<rparr>)"
    unfolding blast_results_save_def
    by (simp add: frag example_save_root)
  then show ?thesis
    by (simp add: example_world_def)
qed

theorem empty_lineage_aborts_fragment_witness:
  "check_lineage example_ncbi (Some ''root'') example_world =
     (Inl IndexError, example_world\<lparr>executed := executed example_world @ [Select_tax_id]\<rparr>)
   \<and> save_alignments example_ncbi example_fragment
       [example_hit ''hypothetical protein [root]'' ''WP_000001'',
        example_hit ''chaperonin GroEL [Escherichia coli]'' ''WP_000002''] example_world =
     (Inl IndexError, example_world\<lparr>executed := executed example_world @ [Select_tax_id]\<rparr>)"
proof -
  have lin: "get_lineage example_ncbi
      (res_organism_name
        \<lparr>res_score = 250 :: int, res_expect = 0, res_identities = 48, res_gaps = 0,
          res_positives = 50, res_accession = ''WP_000001'',
          res_protein_name = ''hypothetical protein'', res_organism_name = Some ''root'',
          res_title = ''hypothetical protein [root]''\<rparr>) = Inr []"
    by (simp add: example_get_lineage_root)
  from empty_lineage_aborts_fragment [OF example_extract_root lin, of example_world
      example_fragment "[example_hit ''chaperonin GroEL [Escherichia coli]'' ''WP_000002'']"]
  show ?thesis by simp
qed

text \<open>
  C8. The claim covers every lookup failure. The code, on a record whose organism is
  \<^verbatim>\<open>root\<close>: the lookup raises \<^verbatim>\<open>IndexError\<close>, which the handler does not catch, so
  the line is not printed and the record's protein row is not written.
\<close>

theorem index_error_lookup_not_recovered:
  "fst (resolve_tax_id example_ncbi (Some ''root'') example_world) = Inl IndexError
   \<and> fst (save_alignment example_ncbi example_fragment
            (example_hit ''putative kinase [root]'' ''WP_000003'') example_world)
       = Inl IndexError
   \<and> console (snd (save_alignment example_ncbi example_fragment
            (example_hit ''putative kinase [root]'' ''WP_000003'') example_world)) = []
   \<and> protein (snd (save_alignment example_ncbi example_fragment
            (example_hit ''putative kinase [root]'' ''WP_000003'') example_world)) = []"
proof -
  have "save_alignment example_ncbi example_fragment
            (example_hit ''putative kinase [root]'' ''WP_000003'') example_world =
        (Inl IndexError, example_world\<lparr>executed := executed example_world @ [Select_tax_id]\<rparr>)"
    by (rule save_alignment_empty_lineage [OF example_extract_kinase])
      (simp add: example_get_lineage_root)
  moreover have "resolve_tax_id example_ncbi (Some ''root'') example_world =
        (Inl IndexError, example_world\<lparr>executed := executed example_world @ [Select_tax_id]\<rparr>)"
    by (simp add: resolve_tax_id_def check_lineage_empty [OF example_get_lineage_root])
  ultimately show ?thesis
    by (simp add: example_world_def)
qed

theorem keyerror_lookup_recovers_witness:
  "save_alignment example_ncbi example_fragment
     (example_hit ''hypothetical protein [Unknownium fictum]'' ''WP_000004'') example_world =
   (Inr (),
    example_world
      \<lparr>executed := [Select_tax_id,
          Insert_ignore_protein ''WP_000004'' None ''hypothetical protein'',
          Insert_blast_result ''read1'' ''WP_000004'' 250 0 48 50 0],
       console := [''An error occurred while looking up the data of read1 as Unknownium fictum,with title hypothetical protein [Unknownium fictum]''],
       protein := [(''WP_000004'', None, None, ''hypothetical protein'')],
       blast_result := [(Some 1, ''WP_000004'', 250, 0, 48, 50, 0)]\<rparr>)"
proof -
  let ?res = "\<lparr>res_score = 250 :: int, res_expect = 0, res_identities = 48, res_gaps = 0,
          res_positives = 50, res_accession = ''WP_000004'',
          res_protein_name = ''hypothetical protein'',
          res_organism_name = Some ''Unknownium fictum'',
          res_title = ''hypothetical protein [Unknownium fictum]''\<rparr>"
  let ?w1 = "example_world\<lparr>executed := executed example_world @ [Select_tax_id]\<rparr>"
  let ?w' = "snd (save_alignment example_ncbi (''read1'' # [''ACGT'', ''IIII''])
     (example_hit ''hypothetical protein [Unknownium fictum]'' ''WP_000004'') example_world)"
  have res: "resolve_tax_id example_ncbi (res_organism_name ?res) example_world
      = (Inl KeyError, ?w1)"
    using resolve_unknown_organism [OF example_get_lineage_unknown] by simp
  have w': "?w' = ?w'"
    by (rule refl)
  note inst = keyerror_lookup_recovers [OF example_extract_unknown res w', of Nil]
  have "?w' = example_world
      \<lparr>executed := [Select_tax_id,
          Insert_ignore_protein ''WP_000004'' None ''hypothetical protein'',
          Insert_blast_result ''read1'' ''WP_000004'' 250 0 48 50 0],
       console := [''An error occurred while looking up the data of read1 as Unknownium fictum,with title hypothetical protein [Unknownium fictum]''],
       protein := [(''WP_000004'', None, None, ''hypothetical protein'')],
       blast_result := [(Some 1, ''WP_000004'', 250, 0, 48, 50, 0)]\<rparr>"
    using inst by (simp add: example_world_def world.equality)
  with inst show ?thesis
    by (simp add: example_fragment_def)
qed

subsection \<open>The snapshot guard, and a name with an empty lineage\<close>

lemma check_lineage_trace:
  assumes "check_lineage ncbi organism_name w = (r, w')"
  obtains att where
    "executed w' = executed w @ Select_tax_id # map insert_stmt att"
    "set (map fst att) \<inter> set (map fst (taxonomy w)) = {}"
proof (cases "get_lineage ncbi organism_name")
  case (Inl e)
  from assms have "w' = w\<lparr>executed := executed w @ [Select_tax_id]\<rparr>"
    unfolding check_lineage_failed_lookup [OF Inl] by simp
  then show thesis
    by (intro that [of "[]"]) simp_all
next
  case (Inr lineage)
  let ?S = "set (map fst (taxonomy w))"
  let ?w1 = "w\<lparr>executed := executed w @ [Select_tax_id]\<rparr>"
  from Inr assms obtain r0 where
    upd: "update_taxonomy ncbi ?S lineage ?w1 = (r0, w')"
    by (rule check_lineage_world)
  from upd obtain att where
    ex: "executed w' = executed ?w1 @ map insert_stmt att" and
    sub: "subseq (map fst att) (filter (\<lambda>t. t \<notin> ?S) lineage)"
    by (rule update_taxonomy_trace)
  from subseq_filter_absent(1) [OF sub] have "set (map fst att) \<inter> ?S = {}"
    by blast
  moreover from ex have "executed w' = executed w @ Select_tax_id # map insert_stmt att"
    by simp
  ultimately show thesis
    by (intro that [of att])
qed

text \<open>
  C5, as the code has it. An insert of a present identifier raises the duplicate-key
  error and leaves the table as it was. Re-insertion is kept away by the snapshot, for
  each identifier on its own: whatever the lineage and the snapshot, the statements
  \<^verbatim>\<open>update_taxonomy\<close> executes are inserts of lineage identifiers outside the snapshot,
  and a lineage that lies in the snapshot executes nothing; so in a pass of
  \<^verbatim>\<open>check_lineage\<close>, whose snapshot is the table, no identifier the table held at the
  start of the pass is inserted again.
\<close>

theorem taxonomy_insert_guarded_by_snapshot:
  "(tax_id \<in> set (map fst (taxonomy w)) \<longrightarrow>
      insert_taxonomy tax_id name parent w =
        (Inl IntegrityError, w\<lparr>executed := executed w @ [Insert_taxonomy tax_id name parent]\<rparr>))
   \<and> (update_taxonomy ncbi current_tax lineage w = (r, w') \<longrightarrow>
        (\<exists>att. executed w' = executed w @ map insert_stmt att
           \<and> set (map fst att) \<subseteq> set lineage - current_tax))
   \<and> (set lineage \<subseteq> current_tax \<longrightarrow> update_taxonomy ncbi current_tax lineage w = (Inr (), w))
   \<and> (check_lineage ncbi organism_name w = (r2, w2) \<longrightarrow>
        (\<exists>att. executed w2 = executed w @ Select_tax_id # map insert_stmt att
           \<and> set (map fst att) \<inter> set (map fst (taxonomy w)) = {}))"
proof (intro conjI impI)
  assume "tax_id \<in> set (map fst (taxonomy w))"
  then show "insert_taxonomy tax_id name parent w =
      (Inl IntegrityError, w\<lparr>executed := executed w @ [Insert_taxonomy tax_id name parent]\<rparr>)"
    by (simp add: insert_taxonomy_def)
next
  assume "update_taxonomy ncbi current_tax lineage w = (r, w')"
  then obtain att where
    ex: "executed w' = executed w @ map insert_stmt att" and
    sub: "subseq (map fst att) (filter (\<lambda>t. t \<notin> current_tax) lineage)"
    by (rule update_taxonomy_trace)
  from subseq_filter_absent(1) [OF sub] ex
  show "\<exists>att. executed w' = executed w @ map insert_stmt att
      \<and> set (map fst att) \<subseteq> set lineage - current_tax"
    by blast
next
  assume "set lineage \<subseteq> current_tax"
  then show "update_taxonomy ncbi current_tax lineage w = (Inr (), w)"
    by (rule update_taxonomy_skip)
next
  assume "check_lineage ncbi organism_name w = (r2, w2)"
  then obtain att where
    "executed w2 = executed w @ Select_tax_id # map insert_stmt att"
    "set (map fst att) \<inter> set (map fst (taxonomy w)) = {}"
    by (rule check_lineage_trace)
  then show "\<exists>att. executed w2 = executed w @ Select_tax_id # map insert_stmt att
      \<and> set (map fst att) \<inter> set (map fst (taxonomy w)) = {}"
    by blast
qed

lemma example_update_taxonomy_mixed:
  "update_taxonomy example_ncbi {131567} [131567, 2, 562] example_world =
   (Inr (),
    example_world
      \<lparr>executed := [Insert_taxonomy 2 ''Bacteria'' (Some 131567),
                    Insert_taxonomy 562 ''Escherichia coli'' (Some 2)],
       taxonomy := [(131567, ''cellular organisms'', None), (2, ''Bacteria'', Some 131567),
                    (562, ''Escherichia coli'', Some 2)]\<rparr>)"
  by (simp add: update_taxonomy_def example_ncbi_def example_world_def insert_taxonomy_def
      parent_of_def)

theorem taxonomy_insert_guarded_by_snapshot_witness:
  "insert_taxonomy 131567 ''cellular organisms'' None example_world =
     (Inl IntegrityError,
      example_world\<lparr>executed := executed example_world
         @ [Insert_taxonomy 131567 ''cellular organisms'' None]\<rparr>)
   \<and> update_taxonomy example_ncbi {131567} [131567, 2, 562] example_world =
     (Inr (),
      example_world
        \<lparr>executed := [Insert_taxonomy 2 ''Bacteria'' (Some 131567),
                      Insert_taxonomy 562 ''Escherichia coli'' (Some 2)],
         taxonomy := [(131567, ''cellular organisms'', None), (2, ''Bacteria'', Some 131567),
                      (562, ''Escherichia coli'', Some 2)]\<rparr>)
   \<and> (\<exists>att. executed (snd (update_taxonomy example_ncbi {131567} [131567, 2, 562]
                             example_world))
              = executed example_world @ map insert_stmt att
          \<and> set (map fst att) \<subseteq> set [131567, 2, 562] - {131567})
   \<and> update_taxonomy example_ncbi {131567} [131567] example_world = (Inr (), example_world)
   \<and> (\<exists>att. executed example_world_resolved
              = executed example_world @ Select_tax_id # map insert_stmt att
          \<and> set (map fst att) \<inter> set (map fst (taxonomy example_world)) = {})"
proof -
  let ?run = "update_taxonomy example_ncbi {131567} [131567, 2, 562] example_world"
  have present: "131567 \<in> set (map fst (taxonomy example_world))"
    by (simp add: example_world_def)
  have pair: "?run = (fst ?run, snd ?run)"
    by simp
  have inside: "set [131567] \<subseteq> {131567 :: int}"
    by simp
  note mixed = taxonomy_insert_guarded_by_snapshot [of 131567 example_world
      "''cellular organisms''" None example_ncbi "{131567}" "[131567, 2, 562]"
      "fst ?run" "snd ?run" "Some ''Escherichia coli''" "Inr 562" example_world_resolved]
  note whole = taxonomy_insert_guarded_by_snapshot [of 131567 example_world
      "''cellular organisms''" None example_ncbi "{131567}" "[131567]"
      "fst ?run" "snd ?run" "Some ''Escherichia coli''" "Inr 562" example_world_resolved]
  have a: "insert_taxonomy 131567 ''cellular organisms'' None example_world =
     (Inl IntegrityError,
      example_world\<lparr>executed := executed example_world
         @ [Insert_taxonomy 131567 ''cellular organisms'' None]\<rparr>)"
    using mixed [THEN conjunct1, rule_format, OF present] .
  have b: "\<exists>att. executed (snd ?run) = executed example_world @ map insert_stmt att
          \<and> set (map fst att) \<subseteq> set [131567, 2, 562] - {131567}"
    using mixed [THEN conjunct2, THEN conjunct1, rule_format, OF pair] .
  have c: "update_taxonomy example_ncbi {131567} [131567] example_world = (Inr (), example_world)"
    using whole [THEN conjunct2, THEN conjunct2, THEN conjunct1, rule_format, OF inside] .
  have d: "\<exists>att. executed example_world_resolved
              = executed example_world @ Select_tax_id # map insert_stmt att
          \<and> set (map fst att) \<inter> set (map fst (taxonomy example_world)) = {}"
    using mixed [THEN conjunct2, THEN conjunct2, THEN conjunct2, rule_format,
        OF example_check_lineage_resolved] .
  from a example_update_taxonomy_mixed b c d show ?thesis
    by (intro conjI)
qed

text \<open>
  C7. The claim: for every name the taxonomy source recognises, two runs of
  \<^verbatim>\<open>check_lineage\<close> return the same terminal identifier. The code, on the name
  \<^verbatim>\<open>root\<close>, which the source translates to the identifier 1 with the lineage \<open>[1]\<close>:
  the lineage without its first element is empty, and both runs raise \<^verbatim>\<open>IndexError\<close>
  instead of returning an identifier.
\<close>

theorem check_lineage_twice_root_raises:
  "map_sum id (\<lambda>translator. translator (Some ''root''))
      (get_name_translator example_ncbi [Some ''root'']) = Inr (Some [1])
   \<and> ncbi_get_lineage example_ncbi 1 = Inr [1]
   \<and> check_lineage example_ncbi (Some ''root'') example_world =
       (Inl IndexError, example_world\<lparr>executed := [Select_tax_id]\<rparr>)
   \<and> check_lineage example_ncbi (Some ''root'') (example_world\<lparr>executed := [Select_tax_id]\<rparr>) =
       (Inl IndexError, example_world\<lparr>executed := [Select_tax_id, Select_tax_id]\<rparr>)"
proof -
  have "map_sum id (\<lambda>translator. translator (Some ''root''))
      (get_name_translator example_ncbi [Some ''root'']) = Inr (Some [1])"
    and "ncbi_get_lineage example_ncbi 1 = Inr [1]"
    by (simp_all add: example_ncbi_def)
  moreover have "check_lineage example_ncbi (Some ''root'') example_world =
       (Inl IndexError, example_world\<lparr>executed := [Select_tax_id]\<rparr>)"
    unfolding check_lineage_empty [OF example_get_lineage_root]
    by (simp add: example_world_def)
  moreover have "check_lineage example_ncbi (Some ''root'')
         (example_world\<lparr>executed := [Select_tax_id]\<rparr>) =
       (Inl IndexError, example_world\<lparr>executed := [Select_tax_id, Select_tax_id]\<rparr>)"
    unfolding check_lineage_empty [OF example_get_lineage_root]
    by simp
  ultimately show ?thesis
    by blast
qed

end
